theory Spec2Isabelle
  imports Complex_Main "HOL-Library.Sublist"
begin

section \<open>Python strings\<close>

text \<open>
  A Python \<open>str\<close> is a sequence of Unicode code points. The labels handled by the
  program are Thai, so a string is modelled as the list of its code points
  (\<open>0xE01\<close> is THAI CHARACTER KO KAI); \<open>length\<close> then counts what Python's \<open>len\<close> counts.
  The test \<open>a in b\<close> on strings is \<open>sublist a b\<close>: \<open>a\<close> occurs in \<open>b\<close> as a
  contiguous piece.
\<close>

type_synonym ustr = "nat list"

text \<open>A string literal of the source with ASCII characters only.\<close>

definition ascii :: "string \<Rightarrow> ustr" where
  "ascii s = map of_char s"

section \<open>Exceptions, dictionaries and JSON values\<close>

text \<open>
  The exceptions that the modelled code can raise; \<open>OtherError\<close> is any other
  subclass of \<open>Exception\<close>. \<open>KeyboardInterrupt\<close> is not a subclass of \<open>Exception\<close>:
  a handler \<open>except Exception\<close> lets it pass, a bare \<open>except:\<close> catches it.
\<close>

datatype error = ArmError | KeyError | AttributeError | TypeError | JSONDecodeError | OtherError
  | KeyboardInterrupt

definition is_Exception :: "error \<Rightarrow> bool" where
  "is_Exception e = (e \<noteq> KeyboardInterrupt)"

text \<open>
  A dictionary is the list of its items in insertion order; \<open>dict_get d k dflt\<close> is
  \<open>d.get(k, dflt)\<close> and \<open>dict_set d k v\<close> is \<open>d[k] = v\<close>.
\<close>

definition dict_get :: "('k \<times> 'v) list \<Rightarrow> 'k \<Rightarrow> 'v \<Rightarrow> 'v" where
  "dict_get d k dflt = (case map_of d k of None \<Rightarrow> dflt | Some v \<Rightarrow> v)"

definition dict_set :: "('k \<times> 'v) list \<Rightarrow> 'k \<Rightarrow> 'v \<Rightarrow> ('k \<times> 'v) list" where
  "dict_set d k v =
     (if map_of d k = None then d @ [(k, v)]
      else map (\<lambda>(k', v'). if k' = k then (k', v) else (k', v')) d)"

text \<open>
  What \<open>json.loads\<close> returns: \<open>None\<close>, a truth value, a number, a string, a list
  or a dictionary with string keys. Numbers are only passed on.
\<close>

datatype json =
    JNull | JBool bool | JNum rat | JStr ustr | JList "json list" | JDict "(ustr \<times> json) list"

text \<open>Python's truth value of such a value, \<open>isinstance(v, str)\<close> and \<open>isinstance(v, dict)\<close>.\<close>

fun truth :: "json \<Rightarrow> bool" where
  "truth JNull = False"
| "truth (JBool b) = b"
| "truth (JNum n) = (n \<noteq> 0)"
| "truth (JStr s) = (s \<noteq> [])"
| "truth (JList l) = (l \<noteq> [])"
| "truth (JDict d) = (d \<noteq> [])"

fun is_str :: "json \<Rightarrow> bool" where
  "is_str (JStr s) = True"
| "is_str _ = False"

fun is_dict :: "json \<Rightarrow> bool" where
  "is_dict (JDict d) = True"
| "is_dict _ = False"

section \<open>Unicode character classes\<close>

text \<open>
  The classes that Python's \<open>str.strip\<close> and the \<open>re\<close> module consult, as tables of
  inclusive code-point ranges in ascending order (Unicode 14.0, the tables of CPython
  3.11): white space (\<open>str.isspace\<close>, the class \<open>\s\<close>), decimal digits
  (\<open>str.isdecimal\<close>, the class \<open>\d\<close>) and word characters (alphanumerics and the
  underscore, the class \<open>\w\<close> that \<open>\b\<close> consults).
\<close>

fun in_ranges :: "(nat \<times> nat) list \<Rightarrow> nat \<Rightarrow> bool" where
  "in_ranges [] c = False"
| "in_ranges ((lo, hi) # rs) c = (if c < lo then False else if c \<le> hi then True else in_ranges rs c)"

definition space_ranges :: "(nat \<times> nat) list" where
  "space_ranges =
    [(0x9, 0xD), (0x1C, 0x20), (0x85, 0x85), (0xA0, 0xA0), (0x1680, 0x1680),
     (0x2000, 0x200A), (0x2028, 0x2029), (0x202F, 0x202F), (0x205F, 0x205F), (0x3000, 0x3000)]"

definition decimal_ranges :: "(nat \<times> nat) list" where
  "decimal_ranges =
    [(0x30, 0x39), (0x660, 0x669), (0x6F0, 0x6F9), (0x7C0, 0x7C9), (0x966, 0x96F),
     (0x9E6, 0x9EF), (0xA66, 0xA6F), (0xAE6, 0xAEF), (0xB66, 0xB6F), (0xBE6, 0xBEF),
     (0xC66, 0xC6F), (0xCE6, 0xCEF), (0xD66, 0xD6F), (0xDE6, 0xDEF), (0xE50, 0xE59),
     (0xED0, 0xED9), (0xF20, 0xF29), (0x1040, 0x1049), (0x1090, 0x1099), (0x17E0, 0x17E9),
     (0x1810, 0x1819), (0x1946, 0x194F), (0x19D0, 0x19D9), (0x1A80, 0x1A89), (0x1A90, 0x1A99),
     (0x1B50, 0x1B59), (0x1BB0, 0x1BB9), (0x1C40, 0x1C49), (0x1C50, 0x1C59), (0xA620, 0xA629),
     (0xA8D0, 0xA8D9), (0xA900, 0xA909), (0xA9D0, 0xA9D9), (0xA9F0, 0xA9F9), (0xAA50, 0xAA59),
     (0xABF0, 0xABF9), (0xFF10, 0xFF19), (0x104A0, 0x104A9), (0x10D30, 0x10D39), (0x11066, 0x1106F),
     (0x110F0, 0x110F9), (0x11136, 0x1113F), (0x111D0, 0x111D9), (0x112F0, 0x112F9), (0x11450, 0x11459),
     (0x114D0, 0x114D9), (0x11650, 0x11659), (0x116C0, 0x116C9), (0x11730, 0x11739), (0x118E0, 0x118E9),
     (0x11950, 0x11959), (0x11C50, 0x11C59), (0x11D50, 0x11D59), (0x11DA0, 0x11DA9), (0x16A60, 0x16A69),
     (0x16AC0, 0x16AC9), (0x16B50, 0x16B59), (0x1D7CE, 0x1D7FF), (0x1E140, 0x1E149), (0x1E2F0, 0x1E2F9),
     (0x1E950, 0x1E959), (0x1FBF0, 0x1FBF9)]"

definition word_ranges :: "(nat \<times> nat) list" where
  "word_ranges =
    [(0x30, 0x39), (0x41, 0x5A), (0x5F, 0x5F), (0x61, 0x7A), (0xAA, 0xAA),
     (0xB2, 0xB3), (0xB5, 0xB5), (0xB9, 0xBA), (0xBC, 0xBE), (0xC0, 0xD6),
     (0xD8, 0xF6), (0xF8, 0x2C1), (0x2C6, 0x2D1), (0x2E0, 0x2E4), (0x2EC, 0x2EC),
     (0x2EE, 0x2EE), (0x370, 0x374), (0x376, 0x377), (0x37A, 0x37D), (0x37F, 0x37F),
     (0x386, 0x386), (0x388, 0x38A), (0x38C, 0x38C), (0x38E, 0x3A1), (0x3A3, 0x3F5),
     (0x3F7, 0x481), (0x48A, 0x52F), (0x531, 0x556), (0x559, 0x559), (0x560, 0x588),
     (0x5D0, 0x5EA), (0x5EF, 0x5F2), (0x620, 0x64A), (0x660, 0x669), (0x66E, 0x66F),
     (0x671, 0x6D3), (0x6D5, 0x6D5), (0x6E5, 0x6E6), (0x6EE, 0x6FC), (0x6FF, 0x6FF),
     (0x710, 0x710), (0x712, 0x72F), (0x74D, 0x7A5), (0x7B1, 0x7B1), (0x7C0, 0x7EA),
     (0x7F4, 0x7F5), (0x7FA, 0x7FA), (0x800, 0x815), (0x81A, 0x81A), (0x824, 0x824),
     (0x828, 0x828), (0x840, 0x858), (0x860, 0x86A), (0x870, 0x887), (0x889, 0x88E),
     (0x8A0, 0x8C9), (0x904, 0x939), (0x93D, 0x93D), (0x950, 0x950), (0x958, 0x961),
     (0x966, 0x96F), (0x971, 0x980), (0x985, 0x98C), (0x98F, 0x990), (0x993, 0x9A8),
     (0x9AA, 0x9B0), (0x9B2, 0x9B2), (0x9B6, 0x9B9), (0x9BD, 0x9BD), (0x9CE, 0x9CE),
     (0x9DC, 0x9DD), (0x9DF, 0x9E1), (0x9E6, 0x9F1), (0x9F4, 0x9F9), (0x9FC, 0x9FC),
     (0xA05, 0xA0A), (0xA0F, 0xA10), (0xA13, 0xA28), (0xA2A, 0xA30), (0xA32, 0xA33),
     (0xA35, 0xA36), (0xA38, 0xA39), (0xA59, 0xA5C), (0xA5E, 0xA5E), (0xA66, 0xA6F),
     (0xA72, 0xA74), (0xA85, 0xA8D), (0xA8F, 0xA91), (0xA93, 0xAA8), (0xAAA, 0xAB0),
     (0xAB2, 0xAB3), (0xAB5, 0xAB9), (0xABD, 0xABD), (0xAD0, 0xAD0), (0xAE0, 0xAE1),
     (0xAE6, 0xAEF), (0xAF9, 0xAF9), (0xB05, 0xB0C), (0xB0F, 0xB10), (0xB13, 0xB28),
     (0xB2A, 0xB30), (0xB32, 0xB33), (0xB35, 0xB39), (0xB3D, 0xB3D), (0xB5C, 0xB5D),
     (0xB5F, 0xB61), (0xB66, 0xB6F), (0xB71, 0xB77), (0xB83, 0xB83), (0xB85, 0xB8A),
     (0xB8E, 0xB90), (0xB92, 0xB95), (0xB99, 0xB9A), (0xB9C, 0xB9C), (0xB9E, 0xB9F),
     (0xBA3, 0xBA4), (0xBA8, 0xBAA), (0xBAE, 0xBB9), (0xBD0, 0xBD0), (0xBE6, 0xBF2),
     (0xC05, 0xC0C), (0xC0E, 0xC10), (0xC12, 0xC28), (0xC2A, 0xC39), (0xC3D, 0xC3D),
     (0xC58, 0xC5A), (0xC5D, 0xC5D), (0xC60, 0xC61), (0xC66, 0xC6F), (0xC78, 0xC7E),
     (0xC80, 0xC80), (0xC85, 0xC8C), (0xC8E, 0xC90), (0xC92, 0xCA8), (0xCAA, 0xCB3),
     (0xCB5, 0xCB9), (0xCBD, 0xCBD), (0xCDD, 0xCDE), (0xCE0, 0xCE1), (0xCE6, 0xCEF),
     (0xCF1, 0xCF2), (0xD04, 0xD0C), (0xD0E, 0xD10), (0xD12, 0xD3A), (0xD3D, 0xD3D),
     (0xD4E, 0xD4E), (0xD54, 0xD56), (0xD58, 0xD61), (0xD66, 0xD78), (0xD7A, 0xD7F),
     (0xD85, 0xD96), (0xD9A, 0xDB1), (0xDB3, 0xDBB), (0xDBD, 0xDBD), (0xDC0, 0xDC6),
     (0xDE6, 0xDEF), (0xE01, 0xE30), (0xE32, 0xE33), (0xE40, 0xE46), (0xE50, 0xE59),
     (0xE81, 0xE82), (0xE84, 0xE84), (0xE86, 0xE8A), (0xE8C, 0xEA3), (0xEA5, 0xEA5),
     (0xEA7, 0xEB0), (0xEB2, 0xEB3), (0xEBD, 0xEBD), (0xEC0, 0xEC4), (0xEC6, 0xEC6),
     (0xED0, 0xED9), (0xEDC, 0xEDF), (0xF00, 0xF00), (0xF20, 0xF33), (0xF40, 0xF47),
     (0xF49, 0xF6C), (0xF88, 0xF8C), (0x1000, 0x102A), (0x103F, 0x1049), (0x1050, 0x1055),
     (0x105A, 0x105D), (0x1061, 0x1061), (0x1065, 0x1066), (0x106E, 0x1070), (0x1075, 0x1081),
     (0x108E, 0x108E), (0x1090, 0x1099), (0x10A0, 0x10C5), (0x10C7, 0x10C7), (0x10CD, 0x10CD),
     (0x10D0, 0x10FA), (0x10FC, 0x1248), (0x124A, 0x124D), (0x1250, 0x1256), (0x1258, 0x1258),
     (0x125A, 0x125D), (0x1260, 0x1288), (0x128A, 0x128D), (0x1290, 0x12B0), (0x12B2, 0x12B5),
     (0x12B8, 0x12BE), (0x12C0, 0x12C0), (0x12C2, 0x12C5), (0x12C8, 0x12D6), (0x12D8, 0x1310),
     (0x1312, 0x1315), (0x1318, 0x135A), (0x1369, 0x137C), (0x1380, 0x138F), (0x13A0, 0x13F5),
     (0x13F8, 0x13FD), (0x1401, 0x166C), (0x166F, 0x167F), (0x1681, 0x169A), (0x16A0, 0x16EA),
     (0x16EE, 0x16F8), (0x1700, 0x1711), (0x171F, 0x1731), (0x1740, 0x1751), (0x1760, 0x176C),
     (0x176E, 0x1770), (0x1780, 0x17B3), (0x17D7, 0x17D7), (0x17DC, 0x17DC), (0x17E0, 0x17E9),
     (0x17F0, 0x17F9), (0x1810, 0x1819), (0x1820, 0x1878), (0x1880, 0x1884), (0x1887, 0x18A8),
     (0x18AA, 0x18AA), (0x18B0, 0x18F5), (0x1900, 0x191E), (0x1946, 0x196D), (0x1970, 0x1974),
     (0x1980, 0x19AB), (0x19B0, 0x19C9), (0x19D0, 0x19DA), (0x1A00, 0x1A16), (0x1A20, 0x1A54),
     (0x1A80, 0x1A89), (0x1A90, 0x1A99), (0x1AA7, 0x1AA7), (0x1B05, 0x1B33), (0x1B45, 0x1B4C),
     (0x1B50, 0x1B59), (0x1B83, 0x1BA0), (0x1BAE, 0x1BE5), (0x1C00, 0x1C23), (0x1C40, 0x1C49),
     (0x1C4D, 0x1C7D), (0x1C80, 0x1C88), (0x1C90, 0x1CBA), (0x1CBD, 0x1CBF), (0x1CE9, 0x1CEC),
     (0x1CEE, 0x1CF3), (0x1CF5, 0x1CF6), (0x1CFA, 0x1CFA), (0x1D00, 0x1DBF), (0x1E00, 0x1F15),
     (0x1F18, 0x1F1D), (0x1F20, 0x1F45), (0x1F48, 0x1F4D), (0x1F50, 0x1F57), (0x1F59, 0x1F59),
     (0x1F5B, 0x1F5B), (0x1F5D, 0x1F5D), (0x1F5F, 0x1F7D), (0x1F80, 0x1FB4), (0x1FB6, 0x1FBC),
     (0x1FBE, 0x1FBE), (0x1FC2, 0x1FC4), (0x1FC6, 0x1FCC), (0x1FD0, 0x1FD3), (0x1FD6, 0x1FDB),
     (0x1FE0, 0x1FEC), (0x1FF2, 0x1FF4), (0x1FF6, 0x1FFC), (0x2070, 0x2071), (0x2074, 0x2079),
     (0x207F, 0x2089), (0x2090, 0x209C), (0x2102, 0x2102), (0x2107, 0x2107), (0x210A, 0x2113),
     (0x2115, 0x2115), (0x2119, 0x211D), (0x2124, 0x2124), (0x2126, 0x2126), (0x2128, 0x2128),
     (0x212A, 0x212D), (0x212F, 0x2139), (0x213C, 0x213F), (0x2145, 0x2149), (0x214E, 0x214E),
     (0x2150, 0x2189), (0x2460, 0x249B), (0x24EA, 0x24FF), (0x2776, 0x2793), (0x2C00, 0x2CE4),
     (0x2CEB, 0x2CEE), (0x2CF2, 0x2CF3), (0x2CFD, 0x2CFD), (0x2D00, 0x2D25), (0x2D27, 0x2D27),
     (0x2D2D, 0x2D2D), (0x2D30, 0x2D67), (0x2D6F, 0x2D6F), (0x2D80, 0x2D96), (0x2DA0, 0x2DA6),
     (0x2DA8, 0x2DAE), (0x2DB0, 0x2DB6), (0x2DB8, 0x2DBE), (0x2DC0, 0x2DC6), (0x2DC8, 0x2DCE),
     (0x2DD0, 0x2DD6), (0x2DD8, 0x2DDE), (0x2E2F, 0x2E2F), (0x3005, 0x3007), (0x3021, 0x3029),
     (0x3031, 0x3035), (0x3038, 0x303C), (0x3041, 0x3096), (0x309D, 0x309F), (0x30A1, 0x30FA),
     (0x30FC, 0x30FF), (0x3105, 0x312F), (0x3131, 0x318E), (0x3192, 0x3195), (0x31A0, 0x31BF),
     (0x31F0, 0x31FF), (0x3220, 0x3229), (0x3248, 0x324F), (0x3251, 0x325F), (0x3280, 0x3289),
     (0x32B1, 0x32BF), (0x3400, 0x4DBF), (0x4E00, 0xA48C), (0xA4D0, 0xA4FD), (0xA500, 0xA60C),
     (0xA610, 0xA62B), (0xA640, 0xA66E), (0xA67F, 0xA69D), (0xA6A0, 0xA6EF), (0xA717, 0xA71F),
     (0xA722, 0xA788), (0xA78B, 0xA7CA), (0xA7D0, 0xA7D1), (0xA7D3, 0xA7D3), (0xA7D5, 0xA7D9),
     (0xA7F2, 0xA801), (0xA803, 0xA805), (0xA807, 0xA80A), (0xA80C, 0xA822), (0xA830, 0xA835),
     (0xA840, 0xA873), (0xA882, 0xA8B3), (0xA8D0, 0xA8D9), (0xA8F2, 0xA8F7), (0xA8FB, 0xA8FB),
     (0xA8FD, 0xA8FE), (0xA900, 0xA925), (0xA930, 0xA946), (0xA960, 0xA97C), (0xA984, 0xA9B2),
     (0xA9CF, 0xA9D9), (0xA9E0, 0xA9E4), (0xA9E6, 0xA9FE), (0xAA00, 0xAA28), (0xAA40, 0xAA42),
     (0xAA44, 0xAA4B), (0xAA50, 0xAA59), (0xAA60, 0xAA76), (0xAA7A, 0xAA7A), (0xAA7E, 0xAAAF),
     (0xAAB1, 0xAAB1), (0xAAB5, 0xAAB6), (0xAAB9, 0xAABD), (0xAAC0, 0xAAC0), (0xAAC2, 0xAAC2),
     (0xAADB, 0xAADD), (0xAAE0, 0xAAEA), (0xAAF2, 0xAAF4), (0xAB01, 0xAB06), (0xAB09, 0xAB0E),
     (0xAB11, 0xAB16), (0xAB20, 0xAB26), (0xAB28, 0xAB2E), (0xAB30, 0xAB5A), (0xAB5C, 0xAB69),
     (0xAB70, 0xABE2), (0xABF0, 0xABF9), (0xAC00, 0xD7A3), (0xD7B0, 0xD7C6), (0xD7CB, 0xD7FB),
     (0xF900, 0xFA6D), (0xFA70, 0xFAD9), (0xFB00, 0xFB06), (0xFB13, 0xFB17), (0xFB1D, 0xFB1D),
     (0xFB1F, 0xFB28), (0xFB2A, 0xFB36), (0xFB38, 0xFB3C), (0xFB3E, 0xFB3E), (0xFB40, 0xFB41),
     (0xFB43, 0xFB44), (0xFB46, 0xFBB1), (0xFBD3, 0xFD3D), (0xFD50, 0xFD8F), (0xFD92, 0xFDC7),
     (0xFDF0, 0xFDFB), (0xFE70, 0xFE74), (0xFE76, 0xFEFC), (0xFF10, 0xFF19), (0xFF21, 0xFF3A),
     (0xFF41, 0xFF5A), (0xFF66, 0xFFBE), (0xFFC2, 0xFFC7), (0xFFCA, 0xFFCF), (0xFFD2, 0xFFD7),
     (0xFFDA, 0xFFDC), (0x10000, 0x1000B), (0x1000D, 0x10026), (0x10028, 0x1003A), (0x1003C, 0x1003D),
     (0x1003F, 0x1004D), (0x10050, 0x1005D), (0x10080, 0x100FA), (0x10107, 0x10133), (0x10140, 0x10178),
     (0x1018A, 0x1018B), (0x10280, 0x1029C), (0x102A0, 0x102D0), (0x102E1, 0x102FB), (0x10300, 0x10323),
     (0x1032D, 0x1034A), (0x10350, 0x10375), (0x10380, 0x1039D), (0x103A0, 0x103C3), (0x103C8, 0x103CF),
     (0x103D1, 0x103D5), (0x10400, 0x1049D), (0x104A0, 0x104A9), (0x104B0, 0x104D3), (0x104D8, 0x104FB),
     (0x10500, 0x10527), (0x10530, 0x10563), (0x10570, 0x1057A), (0x1057C, 0x1058A), (0x1058C, 0x10592),
     (0x10594, 0x10595), (0x10597, 0x105A1), (0x105A3, 0x105B1), (0x105B3, 0x105B9), (0x105BB, 0x105BC),
     (0x10600, 0x10736), (0x10740, 0x10755), (0x10760, 0x10767), (0x10780, 0x10785), (0x10787, 0x107B0),
     (0x107B2, 0x107BA), (0x10800, 0x10805), (0x10808, 0x10808), (0x1080A, 0x10835), (0x10837, 0x10838),
     (0x1083C, 0x1083C), (0x1083F, 0x10855), (0x10858, 0x10876), (0x10879, 0x1089E), (0x108A7, 0x108AF),
     (0x108E0, 0x108F2), (0x108F4, 0x108F5), (0x108FB, 0x1091B), (0x10920, 0x10939), (0x10980, 0x109B7),
     (0x109BC, 0x109CF), (0x109D2, 0x10A00), (0x10A10, 0x10A13), (0x10A15, 0x10A17), (0x10A19, 0x10A35),
     (0x10A40, 0x10A48), (0x10A60, 0x10A7E), (0x10A80, 0x10A9F), (0x10AC0, 0x10AC7), (0x10AC9, 0x10AE4),
     (0x10AEB, 0x10AEF), (0x10B00, 0x10B35), (0x10B40, 0x10B55), (0x10B58, 0x10B72), (0x10B78, 0x10B91),
     (0x10BA9, 0x10BAF), (0x10C00, 0x10C48), (0x10C80, 0x10CB2), (0x10CC0, 0x10CF2), (0x10CFA, 0x10D23),
     (0x10D30, 0x10D39), (0x10E60, 0x10E7E), (0x10E80, 0x10EA9), (0x10EB0, 0x10EB1), (0x10F00, 0x10F27),
     (0x10F30, 0x10F45), (0x10F51, 0x10F54), (0x10F70, 0x10F81), (0x10FB0, 0x10FCB), (0x10FE0, 0x10FF6),
     (0x11003, 0x11037), (0x11052, 0x1106F), (0x11071, 0x11072), (0x11075, 0x11075), (0x11083, 0x110AF),
     (0x110D0, 0x110E8), (0x110F0, 0x110F9), (0x11103, 0x11126), (0x11136, 0x1113F), (0x11144, 0x11144),
     (0x11147, 0x11147), (0x11150, 0x11172), (0x11176, 0x11176), (0x11183, 0x111B2), (0x111C1, 0x111C4),
     (0x111D0, 0x111DA), (0x111DC, 0x111DC), (0x111E1, 0x111F4), (0x11200, 0x11211), (0x11213, 0x1122B),
     (0x11280, 0x11286), (0x11288, 0x11288), (0x1128A, 0x1128D), (0x1128F, 0x1129D), (0x1129F, 0x112A8),
     (0x112B0, 0x112DE), (0x112F0, 0x112F9), (0x11305, 0x1130C), (0x1130F, 0x11310), (0x11313, 0x11328),
     (0x1132A, 0x11330), (0x11332, 0x11333), (0x11335, 0x11339), (0x1133D, 0x1133D), (0x11350, 0x11350),
     (0x1135D, 0x11361), (0x11400, 0x11434), (0x11447, 0x1144A), (0x11450, 0x11459), (0x1145F, 0x11461),
     (0x11480, 0x114AF), (0x114C4, 0x114C5), (0x114C7, 0x114C7), (0x114D0, 0x114D9), (0x11580, 0x115AE),
     (0x115D8, 0x115DB), (0x11600, 0x1162F), (0x11644, 0x11644), (0x11650, 0x11659), (0x11680, 0x116AA),
     (0x116B8, 0x116B8), (0x116C0, 0x116C9), (0x11700, 0x1171A), (0x11730, 0x1173B), (0x11740, 0x11746),
     (0x11800, 0x1182B), (0x118A0, 0x118F2), (0x118FF, 0x11906), (0x11909, 0x11909), (0x1190C, 0x11913),
     (0x11915, 0x11916), (0x11918, 0x1192F), (0x1193F, 0x1193F), (0x11941, 0x11941), (0x11950, 0x11959),
     (0x119A0, 0x119A7), (0x119AA, 0x119D0), (0x119E1, 0x119E1), (0x119E3, 0x119E3), (0x11A00, 0x11A00),
     (0x11A0B, 0x11A32), (0x11A3A, 0x11A3A), (0x11A50, 0x11A50), (0x11A5C, 0x11A89), (0x11A9D, 0x11A9D),
     (0x11AB0, 0x11AF8), (0x11C00, 0x11C08), (0x11C0A, 0x11C2E), (0x11C40, 0x11C40), (0x11C50, 0x11C6C),
     (0x11C72, 0x11C8F), (0x11D00, 0x11D06), (0x11D08, 0x11D09), (0x11D0B, 0x11D30), (0x11D46, 0x11D46),
     (0x11D50, 0x11D59), (0x11D60, 0x11D65), (0x11D67, 0x11D68), (0x11D6A, 0x11D89), (0x11D98, 0x11D98),
     (0x11DA0, 0x11DA9), (0x11EE0, 0x11EF2), (0x11FB0, 0x11FB0), (0x11FC0, 0x11FD4), (0x12000, 0x12399),
     (0x12400, 0x1246E), (0x12480, 0x12543), (0x12F90, 0x12FF0), (0x13000, 0x1342E), (0x14400, 0x14646),
     (0x16800, 0x16A38), (0x16A40, 0x16A5E), (0x16A60, 0x16A69), (0x16A70, 0x16ABE), (0x16AC0, 0x16AC9),
     (0x16AD0, 0x16AED), (0x16B00, 0x16B2F), (0x16B40, 0x16B43), (0x16B50, 0x16B59), (0x16B5B, 0x16B61),
     (0x16B63, 0x16B77), (0x16B7D, 0x16B8F), (0x16E40, 0x16E96), (0x16F00, 0x16F4A), (0x16F50, 0x16F50),
     (0x16F93, 0x16F9F), (0x16FE0, 0x16FE1), (0x16FE3, 0x16FE3), (0x17000, 0x187F7), (0x18800, 0x18CD5),
     (0x18D00, 0x18D08), (0x1AFF0, 0x1AFF3), (0x1AFF5, 0x1AFFB), (0x1AFFD, 0x1AFFE), (0x1B000, 0x1B122),
     (0x1B150, 0x1B152), (0x1B164, 0x1B167), (0x1B170, 0x1B2FB), (0x1BC00, 0x1BC6A), (0x1BC70, 0x1BC7C),
     (0x1BC80, 0x1BC88), (0x1BC90, 0x1BC99), (0x1D2E0, 0x1D2F3), (0x1D360, 0x1D378), (0x1D400, 0x1D454),
     (0x1D456, 0x1D49C), (0x1D49E, 0x1D49F), (0x1D4A2, 0x1D4A2), (0x1D4A5, 0x1D4A6), (0x1D4A9, 0x1D4AC),
     (0x1D4AE, 0x1D4B9), (0x1D4BB, 0x1D4BB), (0x1D4BD, 0x1D4C3), (0x1D4C5, 0x1D505), (0x1D507, 0x1D50A),
     (0x1D50D, 0x1D514), (0x1D516, 0x1D51C), (0x1D51E, 0x1D539), (0x1D53B, 0x1D53E), (0x1D540, 0x1D544),
     (0x1D546, 0x1D546), (0x1D54A, 0x1D550), (0x1D552, 0x1D6A5), (0x1D6A8, 0x1D6C0), (0x1D6C2, 0x1D6DA),
     (0x1D6DC, 0x1D6FA), (0x1D6FC, 0x1D714), (0x1D716, 0x1D734), (0x1D736, 0x1D74E), (0x1D750, 0x1D76E),
     (0x1D770, 0x1D788), (0x1D78A, 0x1D7A8), (0x1D7AA, 0x1D7C2), (0x1D7C4, 0x1D7CB), (0x1D7CE, 0x1D7FF),
     (0x1DF00, 0x1DF1E), (0x1E100, 0x1E12C), (0x1E137, 0x1E13D), (0x1E140, 0x1E149), (0x1E14E, 0x1E14E),
     (0x1E290, 0x1E2AD), (0x1E2C0, 0x1E2EB), (0x1E2F0, 0x1E2F9), (0x1E7E0, 0x1E7E6), (0x1E7E8, 0x1E7EB),
     (0x1E7ED, 0x1E7EE), (0x1E7F0, 0x1E7FE), (0x1E800, 0x1E8C4), (0x1E8C7, 0x1E8CF), (0x1E900, 0x1E943),
     (0x1E94B, 0x1E94B), (0x1E950, 0x1E959), (0x1EC71, 0x1ECAB), (0x1ECAD, 0x1ECAF), (0x1ECB1, 0x1ECB4),
     (0x1ED01, 0x1ED2D), (0x1ED2F, 0x1ED3D), (0x1EE00, 0x1EE03), (0x1EE05, 0x1EE1F), (0x1EE21, 0x1EE22),
     (0x1EE24, 0x1EE24), (0x1EE27, 0x1EE27), (0x1EE29, 0x1EE32), (0x1EE34, 0x1EE37), (0x1EE39, 0x1EE39),
     (0x1EE3B, 0x1EE3B), (0x1EE42, 0x1EE42), (0x1EE47, 0x1EE47), (0x1EE49, 0x1EE49), (0x1EE4B, 0x1EE4B),
     (0x1EE4D, 0x1EE4F), (0x1EE51, 0x1EE52), (0x1EE54, 0x1EE54), (0x1EE57, 0x1EE57), (0x1EE59, 0x1EE59),
     (0x1EE5B, 0x1EE5B), (0x1EE5D, 0x1EE5D), (0x1EE5F, 0x1EE5F), (0x1EE61, 0x1EE62), (0x1EE64, 0x1EE64),
     (0x1EE67, 0x1EE6A), (0x1EE6C, 0x1EE72), (0x1EE74, 0x1EE77), (0x1EE79, 0x1EE7C), (0x1EE7E, 0x1EE7E),
     (0x1EE80, 0x1EE89), (0x1EE8B, 0x1EE9B), (0x1EEA1, 0x1EEA3), (0x1EEA5, 0x1EEA9), (0x1EEAB, 0x1EEBB),
     (0x1F100, 0x1F10C), (0x1FBF0, 0x1FBF9), (0x20000, 0x2A6DF), (0x2A700, 0x2B738), (0x2B740, 0x2B81D),
     (0x2B820, 0x2CEA1), (0x2CEB0, 0x2EBE0), (0x2F800, 0x2FA1D), (0x30000, 0x3134A)]"

definition is_space :: "nat \<Rightarrow> bool" where
  "is_space c = in_ranges space_ranges c"

definition is_decimal :: "nat \<Rightarrow> bool" where
  "is_decimal c = in_ranges decimal_ranges c"

definition is_word :: "nat \<Rightarrow> bool" where
  "is_word c = in_ranges word_ranges c"

text \<open>
  \<open>ic p\<close> is the class of the characters that the pattern character \<open>p\<close> matches under
  \<open>re.IGNORECASE\<close>, for \<open>p\<close> a lower-case ASCII letter or a caseless character (the
  only pattern characters the program uses with that flag): the letter, its capital and,
  for \<open>i\<close>, \<open>k\<close> and \<open>s\<close>, the code points U+0130 and U+0131, U+212A and U+017F that
  \<open>re\<close> folds to them.
\<close>

definition ic :: "nat \<Rightarrow> nat \<Rightarrow> bool" where
  "ic p x =
     (x = p \<or> (0x61 \<le> p \<and> p \<le> 0x7A \<and> x + 0x20 = p) \<or>
      (p = 0x69 \<and> (x = 0x130 \<or> x = 0x131)) \<or> (p = 0x6B \<and> x = 0x212A) \<or>
      (p = 0x73 \<and> x = 0x17F))"

text \<open>\<open>s.strip()\<close> removes the white space at both ends.\<close>

definition strip :: "ustr \<Rightarrow> ustr" where
  "strip s = rev (dropWhile is_space (rev (dropWhile is_space s)))"

text \<open>\<open>s.replace(" ", "")\<close> removes every space character U+0020.\<close>

definition replace_spaces :: "ustr \<Rightarrow> ustr" where
  "replace_spaces s = filter (\<lambda>c. c \<noteq> 0x20) s"

text \<open>The slice \<open>s[a:b]\<close> for \<open>0 \<le> a\<close> and \<open>0 \<le> b\<close>.\<close>

definition slice :: "ustr \<Rightarrow> nat \<Rightarrow> nat \<Rightarrow> ustr" where
  "slice s a b = take (b - a) (drop a s)"

section \<open>Regular expressions as Python's \<open>re\<close> matches them\<close>

text \<open>
  The constructs of the patterns in the source: a character class, the empty pattern,
  sequence, alternation (left branch first), the greedy and the lazy star, a numbered
  capturing group, a lookahead \<open>(?=r)\<close>, and the anchors: \<open>Bol\<close> and \<open>Eol\<close> are \<open>^\<close>
  and \<open>$\<close> without \<open>re.MULTILINE\<close>, \<open>BolM\<close> and \<open>EolM\<close> with it, \<open>WordB\<close> is \<open>\b\<close>.
\<close>

datatype regex =
    Chr "nat \<Rightarrow> bool"
  | Eps
  | Seq regex regex
  | Alt regex regex
  | Star regex
  | LazyStar regex
  | Group nat regex
  | Ahead regex
  | Bol | Eol | BolM | EolM | WordB

text \<open>The spans \<open>(group, start, end)\<close> captured so far, the latest first.\<close>

type_synonym caps = "(nat \<times> nat \<times> nat) list"

text \<open>
  \<open>ms r t (i, c)\<close> lists the ways in which \<open>r\<close> matches \<open>t\<close> from position \<open>i\<close>, each
  as the end position and the captures, in the order in which the backtracking matcher
  of \<open>re\<close> tries them: the head of the list is the match that \<open>re\<close> reports. A star
  does not repeat an iteration that consumed nothing.
\<close>

function (sequential) ms :: "regex \<Rightarrow> ustr \<Rightarrow> nat \<times> caps \<Rightarrow> (nat \<times> caps) list" where
  "ms (Chr P) t (i, c) = (if i < length t \<and> P (t ! i) then [(Suc i, c)] else [])"
| "ms Eps t s = [s]"
| "ms (Seq a b) t s = concat (map (ms b t) (ms a t s))"
| "ms (Alt a b) t s = ms a t s @ ms b t s"
| "ms (Star a) t (i, c) =
     concat (map (\<lambda>(j, c'). if i < j \<and> j \<le> length t then ms (Star a) t (j, c') else [])
                 (ms a t (i, c))) @ [(i, c)]"
| "ms (LazyStar a) t (i, c) =
     (i, c) # concat (map (\<lambda>(j, c'). if i < j \<and> j \<le> length t
                                     then ms (LazyStar a) t (j, c') else [])
                          (ms a t (i, c)))"
| "ms (Group n a) t (i, c) = map (\<lambda>(j, c'). (j, (n, i, j) # c')) (ms a t (i, c))"
| "ms (Ahead a) t (i, c) = (case ms a t (i, c) of [] \<Rightarrow> [] | (j, c') # _ \<Rightarrow> [(i, c')])"
| "ms Bol t (i, c) = (if i = 0 then [(i, c)] else [])"
| "ms Eol t (i, c) =
     (if i = length t \<or> (Suc i = length t \<and> t ! i = 0xA) then [(i, c)] else [])"
| "ms BolM t (i, c) =
     (if i = 0 \<or> (i \<le> length t \<and> t ! (i - 1) = 0xA) then [(i, c)] else [])"
| "ms EolM t (i, c) =
     (if i = length t \<or> (i < length t \<and> t ! i = 0xA) then [(i, c)] else [])"
| "ms WordB t (i, c) =
     (if (0 < i \<and> i \<le> length t \<and> is_word (t ! (i - 1))) \<noteq> (i < length t \<and> is_word (t ! i))
      then [(i, c)] else [])"
  by pat_completeness auto
termination
  by (relation "inv_image (measure size <*lex*> measure id) (\<lambda>(r, t, i, c). (r, length t - i))")
     auto

text \<open>Derived forms: a literal string, \<open>r+\<close>, \<open>r?\<close>, \<open>r+?\<close>, \<open>r{n}\<close>.\<close>

fun lit :: "(nat \<Rightarrow> nat \<Rightarrow> bool) \<Rightarrow> ustr \<Rightarrow> regex" where
  "lit eq [] = Eps"
| "lit eq (p # ps) = Seq (Chr (eq p)) (lit eq ps)"

definition plus :: "regex \<Rightarrow> regex" where
  "plus r = Seq r (Star r)"

definition opt :: "regex \<Rightarrow> regex" where
  "opt r = Alt r Eps"

definition lazy_plus :: "regex \<Rightarrow> regex" where
  "lazy_plus r = Seq r (LazyStar r)"

fun times :: "nat \<Rightarrow> regex \<Rightarrow> regex" where
  "times 0 r = Eps"
| "times (Suc n) r = Seq r (times n r)"

text \<open>
  A match object is \<open>(start, end, captures)\<close>. \<open>match_from\<close> tries the start positions
  in the given order and returns the first match; \<open>search\<close> is \<open>re.search\<close>.
\<close>

type_synonym rmatch = "nat \<times> nat \<times> caps"

fun match_from :: "regex \<Rightarrow> ustr \<Rightarrow> nat list \<Rightarrow> rmatch option" where
  "match_from r t [] = None"
| "match_from r t (i # ps) =
     (case ms r t (i, []) of [] \<Rightarrow> match_from r t ps | (e, c) # _ \<Rightarrow> Some (i, e, c))"

definition search :: "regex \<Rightarrow> ustr \<Rightarrow> rmatch option" where
  "search r t = match_from r t [0..<Suc (length t)]"

text \<open>
  \<open>scan r t nxt ps\<close> collects the successive non-overlapping matches of \<open>re.finditer\<close>:
  the start positions \<open>ps\<close> are tried from left to right, those before \<open>nxt\<close> (inside
  the previous match) are skipped. No pattern that the program scans with matches the
  empty string, so the next match is looked for from the end of the previous one.
\<close>

fun scan :: "regex \<Rightarrow> ustr \<Rightarrow> nat \<Rightarrow> nat list \<Rightarrow> rmatch list" where
  "scan r t nxt [] = []"
| "scan r t nxt (i # ps) =
     (if i < nxt then scan r t nxt ps
      else case ms r t (i, []) of
             [] \<Rightarrow> scan r t nxt ps
           | (e, c) # _ \<Rightarrow> (i, e, c) # scan r t (max e (Suc i)) ps)"

definition finditer :: "regex \<Rightarrow> ustr \<Rightarrow> rmatch list" where
  "finditer r t = scan r t 0 [0..<Suc (length t)]"

text \<open>\<open>m.start()\<close>, \<open>m.group(0)\<close> and \<open>m.group(n)\<close> for a group that took part.\<close>

definition mstart :: "rmatch \<Rightarrow> nat" where
  "mstart m = fst m"

definition group0 :: "ustr \<Rightarrow> rmatch \<Rightarrow> ustr" where
  "group0 t m = slice t (fst m) (fst (snd m))"

definition group :: "ustr \<Rightarrow> rmatch \<Rightarrow> nat \<Rightarrow> ustr" where
  "group t m n = (case map_of (snd (snd m)) n of None \<Rightarrow> [] | Some (a, b) \<Rightarrow> slice t a b)"

text \<open>\<open>re.findall\<close> for a pattern without groups: the matched pieces.\<close>

definition findall :: "regex \<Rightarrow> ustr \<Rightarrow> ustr list" where
  "findall r t = map (group0 t) (finditer r t)"

text \<open>\<open>re.sub(r, '', t)\<close>: the text with every match removed.\<close>

fun remove_spans :: "ustr \<Rightarrow> nat \<Rightarrow> rmatch list \<Rightarrow> ustr" where
  "remove_spans t pos [] = drop pos t"
| "remove_spans t pos (m # rest) = slice t pos (fst m) @ remove_spans t (fst (snd m)) rest"

definition sub_empty :: "regex \<Rightarrow> ustr \<Rightarrow> ustr" where
  "sub_empty r t = remove_spans t 0 (finditer r t)"

text \<open>
  The continuation of a star over the results of one iteration, as a recursion over
  the list of results (the form in which the star equations of \<open>ms\<close> are evaluated).
\<close>

fun star_more :: "regex \<Rightarrow> ustr \<Rightarrow> nat \<Rightarrow> (nat \<times> caps) list \<Rightarrow> (nat \<times> caps) list" where
  "star_more r t i [] = []"
| "star_more r t i ((j, c') # rest) =
     (if i < j \<and> j \<le> length t then ms r t (j, c') else []) @ star_more r t i rest"

section \<open>Provinces and regions (process.py)\<close>

text \<open>\<open>self.all_provinces\<close>: the 77 names, in the source's order.\<close>

definition all_provinces :: "ustr list" where
  "all_provinces =
    [[0xE01, 0xE23, 0xE38, 0xE07, 0xE40, 0xE17, 0xE1E, 0xE21, 0xE2B, 0xE32, 0xE19, 0xE04, 0xE23],
     [0xE01, 0xE23, 0xE30, 0xE1A, 0xE35, 0xE48],
     [0xE01, 0xE32, 0xE0D, 0xE08, 0xE19, 0xE1A, 0xE38, 0xE23, 0xE35],
     [0xE01, 0xE32, 0xE2C, 0xE2A, 0xE34, 0xE19, 0xE18, 0xE38, 0xE4C],
     [0xE01, 0xE33, 0xE41, 0xE1E, 0xE07, 0xE40, 0xE1E, 0xE0A, 0xE23],
     [0xE02, 0xE2D, 0xE19, 0xE41, 0xE01, 0xE48, 0xE19],
     [0xE08, 0xE31, 0xE19, 0xE17, 0xE1A, 0xE38, 0xE23, 0xE35],
     [0xE09, 0xE30, 0xE40, 0xE0A, 0xE34, 0xE07, 0xE40, 0xE17, 0xE23, 0xE32],
     [0xE0A, 0xE25, 0xE1A, 0xE38, 0xE23, 0xE35],
     [0xE0A, 0xE31, 0xE22, 0xE19, 0xE32, 0xE17],
     [0xE0A, 0xE31, 0xE22, 0xE20, 0xE39, 0xE21, 0xE34],
     [0xE0A, 0xE38, 0xE21, 0xE1E, 0xE23],
     [0xE40, 0xE0A, 0xE35, 0xE22, 0xE07, 0xE23, 0xE32, 0xE22],
     [0xE40, 0xE0A, 0xE35, 0xE22, 0xE07, 0xE43, 0xE2B, 0xE21, 0xE48],
     [0xE15, 0xE23, 0xE31, 0xE07],
     [0xE15, 0xE23, 0xE32, 0xE14],
     [0xE15, 0xE32, 0xE01],
     [0xE19, 0xE04, 0xE23, 0xE19, 0xE32, 0xE22, 0xE01],
     [0xE19, 0xE04, 0xE23, 0xE1B, 0xE10, 0xE21],
     [0xE19, 0xE04, 0xE23, 0xE1E, 0xE19, 0xE21],
     [0xE19, 0xE04, 0xE23, 0xE23, 0xE32, 0xE0A, 0xE2A, 0xE35, 0xE21, 0xE32],
     [0xE19, 0xE04, 0xE23, 0xE28, 0xE23, 0xE35, 0xE18, 0xE23, 0xE23, 0xE21, 0xE23, 0xE32, 0xE0A],
     [0xE19, 0xE04, 0xE23, 0xE2A, 0xE27, 0xE23, 0xE23, 0xE04, 0xE4C],
     [0xE19, 0xE19, 0xE17, 0xE1A, 0xE38, 0xE23, 0xE35],
     [0xE19, 0xE23, 0xE32, 0xE18, 0xE34, 0xE27, 0xE32, 0xE2A],
     [0xE19, 0xE48, 0xE32, 0xE19],
     [0xE1A, 0xE36, 0xE07, 0xE01, 0xE32, 0xE2C],
     [0xE1A, 0xE38, 0xE23, 0xE35, 0xE23, 0xE31, 0xE21, 0xE22, 0xE4C],
     [0xE1B, 0xE17, 0xE38, 0xE21, 0xE18, 0xE32, 0xE19, 0xE35],
     [0xE1B, 0xE23, 0xE30, 0xE08, 0xE27, 0xE1A, 0xE04, 0xE35, 0xE23, 0xE35, 0xE02, 0xE31, 0xE19, 0xE18, 0xE4C],
     [0xE1B, 0xE23, 0xE32, 0xE08, 0xE35, 0xE19, 0xE1A, 0xE38, 0xE23, 0xE35],
     [0xE1B, 0xE31, 0xE15, 0xE15, 0xE32, 0xE19, 0xE35],
     [0xE1E, 0xE23, 0xE30, 0xE19, 0xE04, 0xE23, 0xE28, 0xE23, 0xE35, 0xE2D, 0xE22, 0xE38, 0xE18, 0xE22, 0xE32],
     [0xE1E, 0xE30, 0xE40, 0xE22, 0xE32],
     [0xE1E, 0xE31, 0xE07, 0xE07, 0xE32],
     [0xE1E, 0xE31, 0xE17, 0xE25, 0xE38, 0xE07],
     [0xE1E, 0xE34, 0xE08, 0xE34, 0xE15, 0xE23],
     [0xE1E, 0xE34, 0xE29, 0xE13, 0xE38, 0xE42, 0xE25, 0xE01],
     [0xE40, 0xE1E, 0xE0A, 0xE23, 0xE1A, 0xE38, 0xE23, 0xE35],
     [0xE40, 0xE1E, 0xE0A, 0xE23, 0xE1A, 0xE39, 0xE23, 0xE13, 0xE4C],
     [0xE41, 0xE1E, 0xE23, 0xE48],
     [0xE20, 0xE39, 0xE40, 0xE01, 0xE47, 0xE15],
     [0xE21, 0xE2B, 0xE32, 0xE2A, 0xE32, 0xE23, 0xE04, 0xE32, 0xE21],
     [0xE21, 0xE38, 0xE01, 0xE14, 0xE32, 0xE2B, 0xE32, 0xE23],
     [0xE41, 0xE21, 0xE48, 0xE2E, 0xE48, 0xE2D, 0xE07, 0xE2A, 0xE2D, 0xE19],
     [0xE22, 0xE42, 0xE2A, 0xE18, 0xE23],
     [0xE22, 0xE30, 0xE25, 0xE32],
     [0xE23, 0xE49, 0xE2D, 0xE22, 0xE40, 0xE2D, 0xE47, 0xE14],
     [0xE23, 0xE30, 0xE19, 0xE2D, 0xE07],
     [0xE23, 0xE30, 0xE22, 0xE2D, 0xE07],
     [0xE23, 0xE32, 0xE0A, 0xE1A, 0xE38, 0xE23, 0xE35],
     [0xE25, 0xE1E, 0xE1A, 0xE38, 0xE23, 0xE35],
     [0xE25, 0xE33, 0xE1B, 0xE32, 0xE07],
     [0xE25, 0xE33, 0xE1E, 0xE39, 0xE19],
     [0xE40, 0xE25, 0xE22],
     [0xE28, 0xE23, 0xE35, 0xE2A, 0xE30, 0xE40, 0xE01, 0xE29],
     [0xE2A, 0xE01, 0xE25, 0xE19, 0xE04, 0xE23],
     [0xE2A, 0xE07, 0xE02, 0xE25, 0xE32],
     [0xE2A, 0xE15, 0xE39, 0xE25],
     [0xE2A, 0xE21, 0xE38, 0xE17, 0xE23, 0xE1B, 0xE23, 0xE32, 0xE01, 0xE32, 0xE23],
     [0xE2A, 0xE21, 0xE38, 0xE17, 0xE23, 0xE2A, 0xE07, 0xE04, 0xE23, 0xE32, 0xE21],
     [0xE2A, 0xE21, 0xE38, 0xE17, 0xE23, 0xE2A, 0xE32, 0xE04, 0xE23],
     [0xE2A, 0xE23, 0xE30, 0xE41, 0xE01, 0xE49, 0xE27],
     [0xE2A, 0xE23, 0xE30, 0xE1A, 0xE38, 0xE23, 0xE35],
     [0xE2A, 0xE34, 0xE07, 0xE2B, 0xE4C, 0xE1A, 0xE38, 0xE23, 0xE35],
     [0xE2A, 0xE38, 0xE42, 0xE02, 0xE17, 0xE31, 0xE22],
     [0xE2A, 0xE38, 0xE1E, 0xE23, 0xE23, 0xE13, 0xE1A, 0xE38, 0xE23, 0xE35],
     [0xE2A, 0xE38, 0xE23, 0xE32, 0xE29, 0xE0E, 0xE23, 0xE4C, 0xE18, 0xE32, 0xE19, 0xE35],
     [0xE2A, 0xE38, 0xE23, 0xE34, 0xE19, 0xE17, 0xE23, 0xE4C],
     [0xE2B, 0xE19, 0xE2D, 0xE07, 0xE04, 0xE32, 0xE22],
     [0xE2B, 0xE19, 0xE2D, 0xE07, 0xE1A, 0xE31, 0xE27, 0xE25, 0xE33, 0xE20, 0xE39],
     [0xE2D, 0xE48, 0xE32, 0xE07, 0xE17, 0xE2D, 0xE07],
     [0xE2D, 0xE33, 0xE19, 0xE32, 0xE08, 0xE40, 0xE08, 0xE23, 0xE34, 0xE0D],
     [0xE2D, 0xE38, 0xE14, 0xE23, 0xE18, 0xE32, 0xE19, 0xE35],
     [0xE2D, 0xE38, 0xE15, 0xE23, 0xE14, 0xE34, 0xE15, 0xE16, 0xE4C],
     [0xE2D, 0xE38, 0xE17, 0xE31, 0xE22, 0xE18, 0xE32, 0xE19, 0xE35],
     [0xE2D, 0xE38, 0xE1A, 0xE25, 0xE23, 0xE32, 0xE0A, 0xE18, 0xE32, 0xE19, 0xE35]]"

text \<open>\<open>self.region_mapping\<close>: the six regions with their provinces, in the source's order.\<close>

definition region_mapping :: "(ustr \<times> ustr list) list" where
  "region_mapping =
    [([0xE20, 0xE32, 0xE04, 0xE40, 0xE2B, 0xE19, 0xE37, 0xE2D],
       [[0xE40, 0xE0A, 0xE35, 0xE22, 0xE07, 0xE43, 0xE2B, 0xE21, 0xE48],
        [0xE40, 0xE0A, 0xE35, 0xE22, 0xE07, 0xE23, 0xE32, 0xE22],
        [0xE25, 0xE33, 0xE1B, 0xE32, 0xE07],
        [0xE25, 0xE33, 0xE1E, 0xE39, 0xE19],
        [0xE41, 0xE21, 0xE48, 0xE2E, 0xE48, 0xE2D, 0xE07, 0xE2A, 0xE2D, 0xE19],
        [0xE19, 0xE48, 0xE32, 0xE19],
        [0xE1E, 0xE30, 0xE40, 0xE22, 0xE32],
        [0xE41, 0xE1E, 0xE23, 0xE48],
        [0xE2D, 0xE38, 0xE15, 0xE23, 0xE14, 0xE34, 0xE15, 0xE16, 0xE4C],
        [0xE15, 0xE32, 0xE01],
        [0xE2A, 0xE38, 0xE42, 0xE02, 0xE17, 0xE31, 0xE22],
        [0xE1E, 0xE34, 0xE29, 0xE13, 0xE38, 0xE42, 0xE25, 0xE01],
        [0xE40, 0xE1E, 0xE0A, 0xE23, 0xE1A, 0xE39, 0xE23, 0xE13, 0xE4C],
        [0xE01, 0xE33, 0xE41, 0xE1E, 0xE07, 0xE40, 0xE1E, 0xE0A, 0xE23],
        [0xE19, 0xE04, 0xE23, 0xE2A, 0xE27, 0xE23, 0xE23, 0xE04, 0xE4C],
        [0xE1E, 0xE34, 0xE08, 0xE34, 0xE15, 0xE23],
        [0xE2D, 0xE38, 0xE17, 0xE31, 0xE22, 0xE18, 0xE32, 0xE19, 0xE35]]),
     ([0xE20, 0xE32, 0xE04, 0xE15, 0xE30, 0xE27, 0xE31, 0xE19, 0xE2D, 0xE2D, 0xE01, 0xE40, 0xE09, 0xE35, 0xE22, 0xE07, 0xE40, 0xE2B, 0xE19, 0xE37, 0xE2D],
       [[0xE19, 0xE04, 0xE23, 0xE23, 0xE32, 0xE0A, 0xE2A, 0xE35, 0xE21, 0xE32],
        [0xE02, 0xE2D, 0xE19, 0xE41, 0xE01, 0xE48, 0xE19],
        [0xE2D, 0xE38, 0xE14, 0xE23, 0xE18, 0xE32, 0xE19, 0xE35],
        [0xE2D, 0xE38, 0xE1A, 0xE25, 0xE23, 0xE32, 0xE0A, 0xE18, 0xE32, 0xE19, 0xE35],
        [0xE1A, 0xE38, 0xE23, 0xE35, 0xE23, 0xE31, 0xE21, 0xE22, 0xE4C],
        [0xE2A, 0xE38, 0xE23, 0xE34, 0xE19, 0xE17, 0xE23, 0xE4C],
        [0xE28, 0xE23, 0xE35, 0xE2A, 0xE30, 0xE40, 0xE01, 0xE29],
        [0xE22, 0xE42, 0xE2A, 0xE18, 0xE23],
        [0xE0A, 0xE31, 0xE22, 0xE20, 0xE39, 0xE21, 0xE34],
        [0xE21, 0xE2B, 0xE32, 0xE2A, 0xE32, 0xE23, 0xE04, 0xE32, 0xE21],
        [0xE23, 0xE49, 0xE2D, 0xE22, 0xE40, 0xE2D, 0xE47, 0xE14],
        [0xE01, 0xE32, 0xE2C, 0xE2A, 0xE34, 0xE19, 0xE18, 0xE38, 0xE4C],
        [0xE2A, 0xE01, 0xE25, 0xE19, 0xE04, 0xE23],
        [0xE19, 0xE04, 0xE23, 0xE1E, 0xE19, 0xE21],
        [0xE21, 0xE38, 0xE01, 0xE14, 0xE32, 0xE2B, 0xE32, 0xE23],
        [0xE40, 0xE25, 0xE22],
        [0xE2B, 0xE19, 0xE2D, 0xE07, 0xE04, 0xE32, 0xE22],
        [0xE1A, 0xE36, 0xE07, 0xE01, 0xE32, 0xE2C],
        [0xE2B, 0xE19, 0xE2D, 0xE07, 0xE1A, 0xE31, 0xE27, 0xE25, 0xE33, 0xE20, 0xE39],
        [0xE2D, 0xE33, 0xE19, 0xE32, 0xE08, 0xE40, 0xE08, 0xE23, 0xE34, 0xE0D]]),
     ([0xE20, 0xE32, 0xE04, 0xE01, 0xE25, 0xE32, 0xE07],
       [[0xE01, 0xE23, 0xE38, 0xE07, 0xE40, 0xE17, 0xE1E, 0xE21, 0xE2B, 0xE32, 0xE19, 0xE04, 0xE23],
        [0xE19, 0xE19, 0xE17, 0xE1A, 0xE38, 0xE23, 0xE35],
        [0xE1B, 0xE17, 0xE38, 0xE21, 0xE18, 0xE32, 0xE19, 0xE35],
        [0xE2A, 0xE21, 0xE38, 0xE17, 0xE23, 0xE1B, 0xE23, 0xE32, 0xE01, 0xE32, 0xE23],
        [0xE19, 0xE04, 0xE23, 0xE1B, 0xE10, 0xE21],
        [0xE2A, 0xE21, 0xE38, 0xE17, 0xE23, 0xE2A, 0xE32, 0xE04, 0xE23],
        [0xE2A, 0xE21, 0xE38, 0xE17, 0xE23, 0xE2A, 0xE07, 0xE04, 0xE23, 0xE32, 0xE21],
        [0xE1E, 0xE23, 0xE30, 0xE19, 0xE04, 0xE23, 0xE28, 0xE23, 0xE35, 0xE2D, 0xE22, 0xE38, 0xE18, 0xE22, 0xE32],
        [0xE2D, 0xE48, 0xE32, 0xE07, 0xE17, 0xE2D, 0xE07],
        [0xE2A, 0xE34, 0xE07, 0xE2B, 0xE4C, 0xE1A, 0xE38, 0xE23, 0xE35],
        [0xE0A, 0xE31, 0xE22, 0xE19, 0xE32, 0xE17],
        [0xE25, 0xE1E, 0xE1A, 0xE38, 0xE23, 0xE35],
        [0xE2A, 0xE23, 0xE30, 0xE1A, 0xE38, 0xE23, 0xE35]]),
     ([0xE20, 0xE32, 0xE04, 0xE15, 0xE30, 0xE27, 0xE31, 0xE19, 0xE2D, 0xE2D, 0xE01],
       [[0xE0A, 0xE25, 0xE1A, 0xE38, 0xE23, 0xE35],
        [0xE23, 0xE30, 0xE22, 0xE2D, 0xE07],
        [0xE08, 0xE31, 0xE19, 0xE17, 0xE1A, 0xE38, 0xE23, 0xE35],
        [0xE15, 0xE23, 0xE32, 0xE14],
        [0xE09, 0xE30, 0xE40, 0xE0A, 0xE34, 0xE07, 0xE40, 0xE17, 0xE23, 0xE32],
        [0xE1B, 0xE23, 0xE32, 0xE08, 0xE35, 0xE19, 0xE1A, 0xE38, 0xE23, 0xE35],
        [0xE19, 0xE04, 0xE23, 0xE19, 0xE32, 0xE22, 0xE01],
        [0xE2A, 0xE23, 0xE30, 0xE41, 0xE01, 0xE49, 0xE27]]),
     ([0xE20, 0xE32, 0xE04, 0xE15, 0xE30, 0xE27, 0xE31, 0xE19, 0xE15, 0xE01],
       [[0xE01, 0xE32, 0xE0D, 0xE08, 0xE19, 0xE1A, 0xE38, 0xE23, 0xE35],
        [0xE23, 0xE32, 0xE0A, 0xE1A, 0xE38, 0xE23, 0xE35],
        [0xE2A, 0xE38, 0xE1E, 0xE23, 0xE23, 0xE13, 0xE1A, 0xE38, 0xE23, 0xE35],
        [0xE40, 0xE1E, 0xE0A, 0xE23, 0xE1A, 0xE38, 0xE23, 0xE35],
        [0xE1B, 0xE23, 0xE30, 0xE08, 0xE27, 0xE1A, 0xE04, 0xE35, 0xE23, 0xE35, 0xE02, 0xE31, 0xE19, 0xE18, 0xE4C]]),
     ([0xE20, 0xE32, 0xE04, 0xE43, 0xE15, 0xE49],
       [[0xE2A, 0xE07, 0xE02, 0xE25, 0xE32],
        [0xE20, 0xE39, 0xE40, 0xE01, 0xE47, 0xE15],
        [0xE2A, 0xE38, 0xE23, 0xE32, 0xE29, 0xE0E, 0xE23, 0xE4C, 0xE18, 0xE32, 0xE19, 0xE35],
        [0xE19, 0xE04, 0xE23, 0xE28, 0xE23, 0xE35, 0xE18, 0xE23, 0xE23, 0xE21, 0xE23, 0xE32, 0xE0A],
        [0xE15, 0xE23, 0xE31, 0xE07],
        [0xE1E, 0xE31, 0xE17, 0xE25, 0xE38, 0xE07],
        [0xE1B, 0xE31, 0xE15, 0xE15, 0xE32, 0xE19, 0xE35],
        [0xE22, 0xE30, 0xE25, 0xE32],
        [0xE19, 0xE23, 0xE32, 0xE18, 0xE34, 0xE27, 0xE32, 0xE2A],
        [0xE01, 0xE23, 0xE30, 0xE1A, 0xE35, 0xE48],
        [0xE1E, 0xE31, 0xE07, 0xE07, 0xE32],
        [0xE23, 0xE30, 0xE19, 0xE2D, 0xE07],
        [0xE0A, 0xE38, 0xE21, 0xE1E, 0xE23],
        [0xE2A, 0xE15, 0xE39, 0xE25]])]"

text \<open>The value that \<open>get_region\<close> returns for a province of no region.\<close>

definition no_region :: ustr where
  "no_region = [0xE44, 0xE21, 0xE48, 0xE23, 0xE30, 0xE1A, 0xE38, 0xE20, 0xE32, 0xE04]"

definition get_region :: "ustr \<Rightarrow> ustr" where
  "get_region province =
     (case find (\<lambda>(region, provinces). province \<in> set provinces) region_mapping of
        Some (region, provinces) \<Rightarrow> region
      | None \<Rightarrow> no_region)"

text \<open>
  The patterns of \<open>extract_province_from_text\<close>: the abbreviation (CHO CHAN, full stop)
  or the word for province, then a group of one or more characters that are neither
  white space nor digits; and the pattern of the third layer, a run of characters of
  the Thai block.
\<close>

definition not_space_digit :: "nat \<Rightarrow> bool" where
  "not_space_digit c = (\<not> is_space c \<and> \<not> is_decimal c)"

definition province_patterns :: "regex list" where
  "province_patterns =
     [Seq (lit (=) [0xE08, 0x2E]) (Group 1 (plus (Chr not_space_digit))),
      Seq (lit (=) [0xE08, 0xE31, 0xE07, 0xE2B, 0xE27, 0xE31, 0xE14])
          (Group 1 (plus (Chr not_space_digit)))]"

definition thai_char :: "nat \<Rightarrow> bool" where
  "thai_char c = (0xE00 \<le> c \<and> c \<le> 0xE7F)"

definition thai_words :: regex where
  "thai_words = plus (Chr thai_char)"

text \<open>
  The first layer: for each pattern that matches, the first province that equals the
  candidate or contains it; the next pattern when there is none.
\<close>

fun pattern_layer :: "ustr \<Rightarrow> regex list \<Rightarrow> ustr option" where
  "pattern_layer text [] = None"
| "pattern_layer text (pattern # rest) =
     (case search pattern text of
        None \<Rightarrow> pattern_layer text rest
      | Some m \<Rightarrow>
          (let province_candidate = strip (group text m 1)
           in case find (\<lambda>province. province_candidate = province \<or>
                                      sublist province_candidate province) all_provinces of
                Some province \<Rightarrow> Some province
              | None \<Rightarrow> pattern_layer text rest))"

text \<open>The second layer: the first province that occurs in the text, with or without spaces.\<close>

definition direct_layer :: "ustr \<Rightarrow> ustr option" where
  "direct_layer text =
     find (\<lambda>province. sublist province text \<or>
                       sublist (replace_spaces province) (replace_spaces text)) all_provinces"

text \<open>The third layer: the first province that shares a Thai word with the text.\<close>

definition fuzzy_layer :: "ustr \<Rightarrow> ustr option" where
  "fuzzy_layer text =
     (let text_words = set (findall thai_words text)
      in find (\<lambda>province. set (findall thai_words province) \<inter> text_words \<noteq> {}) all_provinces)"

definition extract_province_from_text :: "ustr \<Rightarrow> ustr option" where
  "extract_province_from_text text0 =
     (if text0 = [] then None
      else let text = strip text0
           in case pattern_layer text province_patterns of
                Some province \<Rightarrow> Some province
              | None \<Rightarrow>
                  (case direct_layer text of
                     Some province \<Rightarrow> Some province
                   | None \<Rightarrow> fuzzy_layer text))"

text \<open>The same function with its third layer removed.\<close>

definition extract_province_two_layers :: "ustr \<Rightarrow> ustr option" where
  "extract_province_two_layers text0 =
     (if text0 = [] then None
      else let text = strip text0
           in case pattern_layer text province_patterns of
                Some province \<Rightarrow> Some province
              | None \<Rightarrow> direct_layer text)"

text \<open>The two prefixes of the written forms of a province.\<close>

definition cho_dot :: ustr where
  "cho_dot = [0xE08, 0x2E]"

definition changwat :: ustr where
  "changwat = [0xE08, 0xE31, 0xE07, 0xE2B, 0xE27, 0xE31, 0xE14]"

text \<open>The letters, vowel signs and tone marks of the Thai block (no digit among them).\<close>

definition thai_letter :: "nat \<Rightarrow> bool" where
  "thai_letter c = (0xE01 \<le> c \<and> c \<le> 0xE4E)"

text \<open>The province that stands for "not specified" (the unresolved sentinel).\<close>

definition unresolved :: ustr where
  "unresolved = [0xE44, 0xE21, 0xE48, 0xE23, 0xE30, 0xE1A, 0xE38]"

text \<open>Two provinces used below: Chiang Mai (the arm has a drop point for it) and Chon Buri
  (it has none).\<close>

definition chiang_mai :: ustr where
  "chiang_mai = [0xE40, 0xE0A, 0xE35, 0xE22, 0xE07, 0xE43, 0xE2B, 0xE21, 0xE48]"

definition chon_buri :: ustr where
  "chon_buri = [0xE0A, 0xE25, 0xE1A, 0xE38, 0xE23, 0xE35]"

section \<open>Splitting a label into sender and recipient (process.py)\<close>

text \<open>The marker words, in the source's order: Thai, then \<open>sender\<close>/\<open>recipient\<close>, then \<open>from\<close>/\<open>to\<close>.\<close>

definition sender_words :: "ustr list" where
  "sender_words =
     [[0xE1C, 0xE39, 0xE49, 0xE2A, 0xE48, 0xE07],
      [0x73, 0x65, 0x6E, 0x64, 0x65, 0x72],
      [0x66, 0x72, 0x6F, 0x6D]]"

definition recipient_words :: "ustr list" where
  "recipient_words =
     [[0xE1C, 0xE39, 0xE49, 0xE23, 0xE31, 0xE1A],
      [0x72, 0x65, 0x63, 0x69, 0x70, 0x69, 0x65, 0x6E, 0x74],
      [0x74, 0x6F]]"

text \<open>
  A marker pattern: the word (ignoring case), then white space, then an optional colon
  (U+003A or the full-width U+FF1A).
\<close>

definition colon :: "nat \<Rightarrow> bool" where
  "colon c = (c = 0x3A \<or> c = 0xFF1A)"

definition marker :: "ustr \<Rightarrow> regex" where
  "marker w = Seq (lit ic w) (Seq (Star (Chr is_space)) (opt (Chr colon)))"

definition sender_markers :: "regex list" where
  "sender_markers = map marker sender_words"

definition recipient_markers :: "regex list" where
  "recipient_markers = map marker recipient_words"

text \<open>The start positions of all matches of the patterns, pattern by pattern.\<close>

definition marker_positions :: "regex list \<Rightarrow> ustr \<Rightarrow> nat list" where
  "marker_positions patterns text = concat (map (\<lambda>pattern. map mstart (finditer pattern text)) patterns)"

text \<open>\<open>min\<close> of a non-empty list of positions.\<close>

fun list_min :: "nat list \<Rightarrow> nat" where
  "list_min [] = 0"
| "list_min [x] = x"
| "list_min (x # y # ys) = min x (list_min (y # ys))"

text \<open>
  The phone pattern of the second method: a phone word, white space, an optional colon,
  white space, then nine or more characters that are ASCII digits, white space or hyphens.
\<close>

fun any_of :: "regex list \<Rightarrow> regex" where
  "any_of [] = Chr (\<lambda>c. False)"
| "any_of [r] = r"
| "any_of (r # rs) = Alt r (any_of rs)"

definition ascii_digit :: "nat \<Rightarrow> bool" where
  "ascii_digit c = (0x30 \<le> c \<and> c \<le> 0x39)"

definition phone_words :: "ustr list" where
  "phone_words = [[0xE42, 0xE17, 0xE23], [0x74, 0x65, 0x6C], [0x70, 0x68, 0x6F, 0x6E, 0x65]]"

definition phone_char :: "nat \<Rightarrow> bool" where
  "phone_char c = (ascii_digit c \<or> is_space c \<or> c = 0x2D)"

definition phone_pattern :: regex where
  "phone_pattern =
     Seq (any_of (map (lit ic) phone_words))
       (Seq (Star (Chr is_space))
          (Seq (opt (Chr colon))
             (Seq (Star (Chr is_space))
                (Seq (times 9 (Chr phone_char)) (Star (Chr phone_char))))))"

text \<open>
  The second method moves the split point back to a recipient marker before the second
  phone number: the first of the marker patterns, each continued by \<open>.*$\<close>, that
  matches the text before the split point.
\<close>

definition to_end_of_line :: "regex \<Rightarrow> regex" where
  "to_end_of_line r = Seq r (Seq (Star (Chr (\<lambda>c. c \<noteq> 0xA))) Eol)"

fun back_to_marker :: "regex list \<Rightarrow> ustr \<Rightarrow> nat \<Rightarrow> nat" where
  "back_to_marker [] before_split split_point = split_point"
| "back_to_marker (pattern # rest) before_split split_point =
     (case search (to_end_of_line pattern) before_split of
        Some m \<Rightarrow> mstart m
      | None \<Rightarrow> back_to_marker rest before_split split_point)"

text \<open>\<open>text.split('\n')\<close> and \<open>'\n'.join(lines)\<close>.\<close>

fun split_lines :: "ustr \<Rightarrow> ustr list" where
  "split_lines [] = [[]]"
| "split_lines (c # cs) =
     (if c = 0xA then [] # split_lines cs
      else case split_lines cs of [] \<Rightarrow> [[c]] | l # ls \<Rightarrow> (c # l) # ls)"

fun join_lines :: "ustr list \<Rightarrow> ustr" where
  "join_lines [] = []"
| "join_lines [l] = l"
| "join_lines (l # ls) = l @ 0xA # join_lines ls"

text \<open>\<open>smart_split_sender_recipient\<close>: the pair \<open>(sender_text, recipient_text)\<close>.\<close>

definition smart_split_sender_recipient :: "ustr \<Rightarrow> ustr \<times> ustr" where
  "smart_split_sender_recipient text =
     (let sender_positions = marker_positions sender_markers text;
          recipient_positions = marker_positions recipient_markers text
      in if sender_positions \<noteq> [] \<and> recipient_positions \<noteq> [] then
           (let sender_start = list_min sender_positions;
                recipient_start = list_min recipient_positions
            in if sender_start < recipient_start
               then (strip (slice text sender_start recipient_start),
                     strip (drop recipient_start text))
               else (strip (drop sender_start text),
                     strip (slice text recipient_start sender_start)))
         else
           (let phones = finditer phone_pattern text
            in if 2 \<le> length phones then
                 (let split_point = back_to_marker recipient_markers
                                      (take (mstart (phones ! 1)) text) (mstart (phones ! 1))
                  in (strip (take split_point text), strip (drop split_point text)))
               else
                 (let lines = split_lines text; mid = length lines div 2
                  in (join_lines (take mid lines), join_lines (drop mid lines)))))"

text \<open>
  A text contains a marker word where the word stands in it, letter by letter, ignoring
  case as \<open>re.IGNORECASE\<close> does.
\<close>

definition word_at :: "ustr \<Rightarrow> ustr \<Rightarrow> nat \<Rightarrow> bool" where
  "word_at w text i = (i + length w \<le> length text \<and> list_all2 ic w (take (length w) (drop i text)))"

definition contains_word :: "ustr list \<Rightarrow> ustr \<Rightarrow> bool" where
  "contains_word ws text = list_ex (\<lambda>w. list_ex (word_at w text) [0..<Suc (length text)]) ws"

text \<open>A label whose first marker comes after a heading: \<open>ID9 from A to B\<close>.\<close>

definition label_with_heading :: ustr where
  "label_with_heading =
     [0x49, 0x44, 0x39, 0x20, 0x66, 0x72, 0x6F, 0x6D, 0x20, 0x41, 0x20, 0x74, 0x6F, 0x20, 0x42]"

section \<open>Extracting a person's data from text (process.py)\<close>

text \<open>The character classes \<open>[:\s]\<close>, \<open>[^\n\r]\<close>, \<open>[\s\-]\<close> and \<open>[^\s\d,]\<close> of the patterns.\<close>

definition colon_or_space :: "nat \<Rightarrow> bool" where
  "colon_or_space c = (c = 0x3A \<or> is_space c)"

definition not_newline :: "nat \<Rightarrow> bool" where
  "not_newline c = (c \<noteq> 0xA \<and> c \<noteq> 0xD)"

definition space_or_hyphen :: "nat \<Rightarrow> bool" where
  "space_or_hyphen c = (is_space c \<or> c = 0x2D)"

definition province_name_char :: "nat \<Rightarrow> bool" where
  "province_name_char c = (\<not> is_space c \<and> \<not> is_decimal c \<and> c \<noteq> 0x2C)"

text \<open>The Thai label words: name, address, telephone.\<close>

definition thai_name :: ustr where
  "thai_name = [0xE0A, 0xE37, 0xE48, 0xE2D]"

definition thai_address :: ustr where
  "thai_address = [0xE17, 0xE35, 0xE48, 0xE2D, 0xE22, 0xE39, 0xE48]"

definition thai_tel :: ustr where
  "thai_tel = [0xE42, 0xE17, 0xE23]"

text \<open>
  The name: the text after a name label up to the end of the line or the next label, or
  else the first line; the label is removed from what was found, and a name has more
  than two characters. The patterns are used with \<open>re.IGNORECASE | re.MULTILINE\<close>.
\<close>

definition name_label :: regex where
  "name_label = Seq (any_of [lit ic thai_name, lit ic (ascii ''name'')]) (Star (Chr colon_or_space))"

definition name_patterns :: "regex list" where
  "name_patterns =
     [Seq name_label
        (Seq (Group 1 (lazy_plus (Chr not_newline)))
           (Ahead (any_of [lit ic [0xA], lit ic thai_address, lit ic (ascii ''address''),
                           lit ic thai_tel, lit ic (ascii ''tel''), EolM]))),
      Seq BolM (Seq (Group 1 (lazy_plus (Chr not_newline))) (Ahead (lit ic [0xA])))]"

fun extract_name :: "ustr \<Rightarrow> regex list \<Rightarrow> ustr" where
  "extract_name text [] = []"
| "extract_name text (pattern # rest) =
     (case search pattern text of
        None \<Rightarrow> extract_name text rest
      | Some m \<Rightarrow>
          (let name = sub_empty name_label (strip (group text m 1))
           in if name \<noteq> [] \<and> 2 < length name then name else extract_name text rest))"

text \<open>
  The phone number: after a phone label, or a run of ten digits in one of two layouts
  between word boundaries; only the digits are kept, and there must be nine or more.
\<close>

definition phone_patterns :: "regex list" where
  "phone_patterns =
     [Seq (any_of (map (lit ic) phone_words))
        (Seq (Star (Chr colon_or_space))
           (Group 1 (Seq (times 9 (Chr phone_char)) (Star (Chr phone_char))))),
      Seq WordB
        (Seq (Group 1
                (Seq (Chr (ic 0x30))
                   (Seq (times 2 (Chr is_decimal))
                      (Seq (opt (Chr space_or_hyphen))
                         (Seq (times 3 (Chr is_decimal))
                            (Seq (opt (Chr space_or_hyphen)) (times 4 (Chr is_decimal))))))))
           WordB),
      Seq WordB
        (Seq (Group 1
                (Seq (times 3 (Chr is_decimal))
                   (Seq (opt (Chr space_or_hyphen))
                      (Seq (times 3 (Chr is_decimal))
                         (Seq (opt (Chr space_or_hyphen)) (times 4 (Chr is_decimal)))))))
           WordB)]"

fun extract_phone :: "ustr \<Rightarrow> regex list \<Rightarrow> ustr" where
  "extract_phone text [] = []"
| "extract_phone text (pattern # rest) =
     (case search pattern text of
        None \<Rightarrow> extract_phone text rest
      | Some m \<Rightarrow>
          (let phone = sub_empty (Chr (\<lambda>c. \<not> is_decimal c)) (strip (group text m 1))
           in if 9 \<le> length phone then phone else extract_phone text rest))"

text \<open>
  The address: the text after an address label up to a line that begins with a phone
  label or to the end, or else what follows the abbreviation or the word for province.
  The patterns are used with \<open>re.IGNORECASE | re.DOTALL\<close>.
\<close>

definition address_label :: regex where
  "address_label =
     Seq (any_of [lit ic thai_address, lit ic (ascii ''address'')]) (Star (Chr colon_or_space))"

definition address_patterns :: "regex list" where
  "address_patterns =
     [Seq address_label
        (Seq (Group 1 (lazy_plus (Chr not_newline)))
           (Ahead (Alt (Seq (lit ic [0xA]) (any_of [lit ic thai_tel, lit ic (ascii ''tel'')])) Eol))),
      Seq (any_of [lit ic cho_dot, lit ic changwat])
        (Seq (Star (Chr is_space)) (Group 1 (plus (Chr not_newline))))]"

fun extract_address :: "ustr \<Rightarrow> regex list \<Rightarrow> ustr" where
  "extract_address text [] = []"
| "extract_address text (pattern # rest) =
     (case search pattern text of
        None \<Rightarrow> extract_address text rest
      | Some m \<Rightarrow>
          (let address = sub_empty address_label (strip (group text m 1))
           in if address \<noteq> [] then address else extract_address text rest))"

text \<open>
  The province of the recipient, in three layers: from the address found, from the whole
  text, from the name after the abbreviation or the word for province. The province of
  the sender is looked for in the address only. \<open>[]\<close> is the empty string: not found.
\<close>

definition province_name_pattern :: regex where
  "province_name_pattern =
     Seq (any_of [lit (=) cho_dot, lit (=) changwat])
       (Seq (Star (Chr is_space)) (Group 1 (plus (Chr province_name_char))))"

definition or_empty :: "ustr option \<Rightarrow> ustr" where
  "or_empty v = (case v of None \<Rightarrow> [] | Some s \<Rightarrow> s)"

definition recipient_province :: "ustr \<Rightarrow> ustr \<Rightarrow> ustr" where
  "recipient_province text address =
     (let layer1 = (if address \<noteq> [] then or_empty (extract_province_from_text address) else []);
          layer2 = (if layer1 = [] then or_empty (extract_province_from_text text) else layer1)
      in if layer2 = [] then
           (case search province_name_pattern text of
              None \<Rightarrow> []
            | Some m \<Rightarrow>
                or_empty (extract_province_from_text (strip (group text m 1))))
         else layer2)"

definition sender_province :: "ustr \<Rightarrow> ustr" where
  "sender_province address =
     (if address \<noteq> [] then or_empty (extract_province_from_text address) else [])"

text \<open>
  \<open>_extract_person_info\<close>. The dictionary \<open>info\<close> starts with four empty strings and
  is filled field by field inside one \<open>try\<close>; the handler \<open>except Exception\<close> prints
  and the function returns \<open>info\<close> as far as it was filled. The string and \<open>re\<close>
  operations of the body do not raise by themselves; \<open>faults\<close> says which exception, if
  any, is raised at each step all the same (before the step assigns its field), and at
  \<open>AtHandler\<close> by the statements of a handler, so that what the handlers do is part
  of the model. \<open>Inl e\<close> is the function raising \<open>e\<close>.
\<close>

datatype step = AtName | AtPhone | AtAddress | AtProvince
  | AtSplit | AtTracking | AtClean | AtSearch | AtHandler

record person =
  p_name :: ustr
  p_phone :: ustr
  p_address :: ustr
  p_province :: ustr

definition empty_person :: person where
  "empty_person = \<lparr>p_name = [], p_phone = [], p_address = [], p_province = []\<rparr>"

definition no_faults :: "step \<Rightarrow> error option" where
  "no_faults s = None"

text \<open>
  The body of the \<open>try\<close>: \<open>Inl (e, info)\<close> is the exception raised and \<open>info\<close> as it
  is at that moment.
\<close>

definition extract_person_info_try ::
  "(step \<Rightarrow> error option) \<Rightarrow> ustr \<Rightarrow> bool \<Rightarrow> error \<times> person + person" where
  "extract_person_info_try faults text is_recipient =
     (let info0 = empty_person in
      case faults AtName of Some e \<Rightarrow> Inl (e, info0) | None \<Rightarrow>
      let info1 = info0\<lparr>p_name := extract_name text name_patterns\<rparr> in
      case faults AtPhone of Some e \<Rightarrow> Inl (e, info1) | None \<Rightarrow>
      let info2 = info1\<lparr>p_phone := extract_phone text phone_patterns\<rparr> in
      case faults AtAddress of Some e \<Rightarrow> Inl (e, info2) | None \<Rightarrow>
      let info3 = info2\<lparr>p_address := extract_address text address_patterns\<rparr> in
      case faults AtProvince of Some e \<Rightarrow> Inl (e, info3) | None \<Rightarrow>
      Inr (info3\<lparr>p_province :=
             (if is_recipient then recipient_province text (p_address info3)
              else sender_province (p_address info3))\<rparr>))"

text \<open>
  A handler \<open>except Exception\<close> whose statements are prints: what is not an
  \<open>Exception\<close> passes, and so does what the handler itself raises; otherwise the
  function returns \<open>fallback\<close>.
\<close>

definition except_Exception :: "(step \<Rightarrow> error option) \<Rightarrow> error \<Rightarrow> 'a \<Rightarrow> error + 'a" where
  "except_Exception faults e fallback =
     (if \<not> is_Exception e then Inl e
      else case faults AtHandler of Some e' \<Rightarrow> Inl e' | None \<Rightarrow> Inr fallback)"

definition extract_person_info ::
  "(step \<Rightarrow> error option) \<Rightarrow> ustr \<Rightarrow> bool \<Rightarrow> error + person" where
  "extract_person_info faults text is_recipient =
     (case extract_person_info_try faults text is_recipient of
        Inl (e, info) \<Rightarrow> except_Exception faults e info
      | Inr info \<Rightarrow> Inr info)"

text \<open>What the function returns when nothing is raised.\<close>

definition person_info :: "ustr \<Rightarrow> bool \<Rightarrow> person" where
  "person_info text is_recipient =
     (case extract_person_info no_faults text is_recipient of
        Inl e \<Rightarrow> empty_person
      | Inr info \<Rightarrow> info)"

text \<open>The dictionary that the function returns.\<close>

definition person_dict :: "person \<Rightarrow> json" where
  "person_dict info =
     JDict [(ascii ''name'', JStr (p_name info)), (ascii ''phone'', JStr (p_phone info)),
            (ascii ''address'', JStr (p_address info)), (ascii ''province'', JStr (p_province info))]"

















section \<open>Repairing and normalising a parsed record (process.py)\<close>

text \<open>
  \<open>normalize_ocr_json_result\<close> on a dictionary (the only values that reach it): a long
  string under \<open>sender\<close> is split into both persons; else a string under \<open>recipient\<close>
  is parsed; else, when there is no recipient, a string under \<open>sender\<close> is split.
\<close>

definition split_into_persons :: "(ustr \<times> json) list \<Rightarrow> ustr \<Rightarrow> (ustr \<times> json) list" where
  "split_into_persons data sender =
     (let (sender_text, recipient_text) = smart_split_sender_recipient sender
      in dict_set
           (dict_set data (ascii ''sender'')
              (person_dict (person_info sender_text False)))
           (ascii ''recipient'') (person_dict (person_info recipient_text True)))"

fun str_of :: "json \<Rightarrow> ustr" where
  "str_of (JStr s) = s"
| "str_of _ = []"

definition normalize_ocr_json_result :: "(ustr \<times> json) list \<Rightarrow> (ustr \<times> json) list" where
  "normalize_ocr_json_result data =
     (let sender = dict_get data (ascii ''sender'') (JDict [])
      in if is_str sender \<and> 100 < length (str_of sender)
         then split_into_persons data (str_of sender)
         else if is_str (dict_get data (ascii ''recipient'') JNull)
         then dict_set data (ascii ''recipient'')
                (person_dict (person_info
                   (str_of (dict_get data (ascii ''recipient'') (JStr []))) True))
         else if map_of data (ascii ''recipient'') = None \<or>
                 \<not> truth (dict_get data (ascii ''recipient'') JNull)
         then (if is_str sender then split_into_persons data (str_of sender) else data)
         else data)"

text \<open>
  The records on which the repair splits the string under \<open>sender\<close> (its first and
  its third branch): the string is longer than 100 characters, or the record has no
  recipient (none, or a false value).
\<close>

definition sender_is_split :: "(ustr \<times> json) list \<Rightarrow> bool" where
  "sender_is_split data =
     (let sender = dict_get data (ascii ''sender'') (JDict [])
      in is_str sender \<and>
         (100 < length (str_of sender) \<or>
          (\<not> is_str (dict_get data (ascii ''recipient'') JNull) \<and>
           (map_of data (ascii ''recipient'') = None \<or>
            \<not> truth (dict_get data (ascii ''recipient'') JNull)))))"

text \<open>
  A call \<open>extract_province_from_text(v)\<close> with a value of the record: a false value
  returns \<open>None\<close> at once, a string is resolved, on anything else \<open>v.strip()\<close> raises.
\<close>

definition extract_province_from_value :: "json \<Rightarrow> error + ustr option" where
  "extract_province_from_value v =
     (if \<not> truth v then Inr None
      else case v of JStr s \<Rightarrow> Inr (extract_province_from_text s) | _ \<Rightarrow> Inl AttributeError)"

text \<open>
  \<open>normalize_province_data\<close>, first for the sender: a province that resolves is
  replaced by its canonical name.
\<close>

definition normalize_sender_province :: "(ustr \<times> json) list \<Rightarrow> error + (ustr \<times> json) list" where
  "normalize_sender_province data =
     (case dict_get data (ascii ''sender'') (JDict []) of
        JDict sender \<Rightarrow>
          (let sender_province = dict_get sender (ascii ''province'') (JStr [])
           in if truth sender_province then
                (case extract_province_from_value sender_province of
                   Inl e \<Rightarrow> Inl e
                 | Inr None \<Rightarrow> Inr data
                 | Inr (Some normalized) \<Rightarrow>
                     Inr (dict_set data (ascii ''sender'')
                            (JDict (dict_set sender (ascii ''province'') (JStr normalized)))))
              else Inr data)
      | _ \<Rightarrow> Inr data)"

text \<open>
  Then for the recipient: the province if it resolves, else the province found in the
  address. The function returns the recipient's dictionary.
\<close>

definition province_from_address :: "(ustr \<times> json) list \<Rightarrow> error + (ustr \<times> json) list" where
  "province_from_address recipient =
     (let address = dict_get recipient (ascii ''address'') (JStr [])
      in if truth address then
           (case extract_province_from_value address of
              Inl e \<Rightarrow> Inl e
            | Inr None \<Rightarrow> Inr recipient
            | Inr (Some normalized) \<Rightarrow>
                Inr (dict_set recipient (ascii ''province'') (JStr normalized)))
         else Inr recipient)"

definition normalize_recipient_province :: "(ustr \<times> json) list \<Rightarrow> error + (ustr \<times> json) list" where
  "normalize_recipient_province recipient =
     (let recipient_province = dict_get recipient (ascii ''province'') (JStr [])
      in if truth recipient_province then
           (case extract_province_from_value recipient_province of
              Inl e \<Rightarrow> Inl e
            | Inr (Some normalized) \<Rightarrow>
                Inr (dict_set recipient (ascii ''province'') (JStr normalized))
            | Inr None \<Rightarrow> province_from_address recipient)
         else province_from_address recipient)"

definition normalize_province_data :: "(ustr \<times> json) list \<Rightarrow> error + (ustr \<times> json) list" where
  "normalize_province_data data =
     (if data = [] then Inr data
      else case normalize_sender_province data of
             Inl e \<Rightarrow> Inl e
           | Inr data1 \<Rightarrow>
               (case dict_get data1 (ascii ''recipient'') (JDict []) of
                  JDict recipient \<Rightarrow>
                    (case normalize_recipient_province recipient of
                       Inl e \<Rightarrow> Inl e
                     | Inr recipient1 \<Rightarrow>
                         Inr (if map_of data1 (ascii ''recipient'') = None then data1
                              else dict_set data1 (ascii ''recipient'') (JDict recipient1)))
                | _ \<Rightarrow> Inr data1))"

text \<open>
  Step 5 of \<open>process_single_parcel\<close>: the destination province, from the recipient
  only. A province that is missing, empty or the sentinel is looked for in the address
  of the recipient; the sentinel remains when nothing is found. (The address is sliced
  for a message before it is resolved, which raises on a number, a truth value or a
  dictionary.)
\<close>

definition found_in_address :: "json \<Rightarrow> json \<Rightarrow> error + json" where
  "found_in_address province recipient_address =
     (if truth recipient_address then
        (case recipient_address of
           JNum n \<Rightarrow> Inl TypeError
         | JBool b \<Rightarrow> Inl TypeError
         | JDict d \<Rightarrow> Inl TypeError
         | _ \<Rightarrow>
             (case extract_province_from_value recipient_address of
                Inl e \<Rightarrow> Inl e
              | Inr None \<Rightarrow> Inr province
              | Inr (Some found_province) \<Rightarrow> Inr (JStr found_province)))
      else Inr province)"

definition destination_province :: "(ustr \<times> json) list \<Rightarrow> error + json" where
  "destination_province parcel_data =
     (case dict_get parcel_data (ascii ''recipient'') (JDict []) of
        JDict recipient \<Rightarrow>
          (let province = dict_get recipient (ascii ''province'') (JStr [])
           in if truth province \<and> province \<noteq> JStr unresolved then Inr province
              else case found_in_address province
                          (dict_get recipient (ascii ''address'') (JStr [])) of
                     Inl e \<Rightarrow> Inl e
                   | Inr province1 \<Rightarrow>
                       Inr (if \<not> truth province1 \<or> province1 = JStr unresolved
                            then JStr unresolved else province1))
      | _ \<Rightarrow> Inr (JStr unresolved))"

text \<open>Step 6: the region of the province (of no region when it is not a string).\<close>

definition region_of :: "json \<Rightarrow> ustr" where
  "region_of province = (case province of JStr p \<Rightarrow> get_region p | _ \<Rightarrow> no_region)"

text \<open>
  Steps 3.5, 3.6, 5 and 6 together, on a parsed record: the repair, the normalisation of
  the provinces, the destination province and its region; \<open>Inl\<close> when a step raises
  (the parcel then fails and has no province).
\<close>

definition resolve_destination :: "(ustr \<times> json) list \<Rightarrow> error + json \<times> ustr" where
  "resolve_destination parcel_data =
     (case normalize_province_data (normalize_ocr_json_result parcel_data) of
        Inl e \<Rightarrow> Inl e
      | Inr data \<Rightarrow>
          (case destination_province data of
             Inl e \<Rightarrow> Inl e
           | Inr province \<Rightarrow> Inr (province, region_of province)))"

text \<open>A record whose sender and recipient are objects already.\<close>

definition repaired_record :: "(ustr \<times> json) list" where
  "repaired_record =
     [(ascii ''sender'', JDict [(ascii ''name'', JStr (ascii ''A''))]),
      (ascii ''recipient'',
         JDict [(ascii ''name'', JStr (ascii ''B'')), (ascii ''province'', JStr chiang_mai)]),
      (ascii ''tracking_number'', JStr (ascii ''TH1''))]"




text \<open>
  A record that differs from \<open>repaired_record\<close> in its sender only is
  \<open>dict_set repaired_record (ascii ''sender'') v\<close>. Two such senders: another
  dictionary, with a province of its own, and a string of more than 100 characters, as
  when OCR puts the whole label under \<open>sender\<close>: \<open>from A\<close>, 95 zeros and
  \<open>to B\<close> followed by the abbreviation and the name of Chon Buri. \<open>to_chon_buri\<close>
  is the part of that label from the recipient marker on.
\<close>

definition other_sender :: json where
  "other_sender = JDict [(ascii ''name'', JStr (ascii ''C'')), (ascii ''province'', JStr chon_buri)]"

definition merged_label :: ustr where
  "merged_label = [0x66, 0x72, 0x6F, 0x6D, 0x20, 0x41, 0x20, 0x30, 0x30, 0x30, 0x30, 0x30, 0x30, 0x30, 0x30, 0x30, 0x30, 0x30, 0x30, 0x30, 0x30, 0x30, 0x30, 0x30, 0x30, 0x30, 0x30, 0x30, 0x30, 0x30, 0x30, 0x30, 0x30, 0x30, 0x30, 0x30, 0x30, 0x30, 0x30, 0x30, 0x30, 0x30, 0x30, 0x30, 0x30, 0x30, 0x30, 0x30, 0x30, 0x30, 0x30, 0x30, 0x30, 0x30, 0x30, 0x30, 0x30, 0x30, 0x30, 0x30, 0x30, 0x30, 0x30, 0x30, 0x30, 0x30, 0x30, 0x30, 0x30, 0x30, 0x30, 0x30, 0x30, 0x30, 0x30, 0x30, 0x30, 0x30, 0x30, 0x30, 0x30, 0x30, 0x30, 0x30, 0x30, 0x30, 0x30, 0x30, 0x30, 0x30, 0x30, 0x30, 0x30, 0x30, 0x30, 0x30, 0x30, 0x30, 0x30, 0x30, 0x30, 0x30, 0x20, 0x74, 0x6F, 0x20, 0x42, 0x20, 0xE08, 0x2E, 0xE0A, 0xE25, 0xE1A, 0xE38, 0xE23, 0xE35]"

definition to_chon_buri :: ustr where
  "to_chon_buri = [0x74, 0x6F, 0x20, 0x42, 0x20, 0xE08, 0x2E, 0xE0A, 0xE25, 0xE1A, 0xE38, 0xE23, 0xE35]"

text \<open>The regions of Chiang Mai and of Chon Buri in \<open>region_mapping\<close>: north and east.\<close>

definition north :: ustr where
  "north = [0xE20, 0xE32, 0xE04, 0xE40, 0xE2B, 0xE19, 0xE37, 0xE2D]"

definition east :: ustr where
  "east = [0xE20, 0xE32, 0xE04, 0xE15, 0xE30, 0xE27, 0xE31, 0xE19, 0xE2D, 0xE2D, 0xE01]"

section \<open>The arm controller (dobot\_controller.py)\<close>

text \<open>
  A drop point is the list \<open>[x, y, z, r]\<close> of the source; \<open>add_drop_point\<close> only stores
  lists of four numbers, so a point is a quadruple. The coordinates are only passed on to
  the arm, never computed with, and are written as the exact decimals of the source.
\<close>

type_synonym point = "rat \<times> rat \<times> rat \<times> rat"

text \<open>What the controller asks of the arm: \<open>move_to(x, y, z, r)\<close> and \<open>suck(on)\<close>.\<close>

datatype command = MoveTo rat rat rat rat | Suck bool

text \<open>
  The controller object. \<open>DROP_POINTS\<close> is a class attribute that \<open>add_drop_point\<close>
  mutates, so it is part of the state; the dictionary \<open>stats\<close> is its four entries.
  After \<open>connect\<close> the controller either holds the arm or is in simulation mode.
  \<open>issued\<close> is the sequence of calls of \<open>move_to\<close>, \<open>suction_on\<close> and \<open>suction_off\<close>
  made so far (a history that the proofs read; the source prints a line for each).
\<close>

record controller =
  simulation_mode :: bool
  is_connected :: bool
  DROP_POINTS :: "(ustr \<times> point) list"
  total_picks :: int
  successful_drops :: int
  failed_drops :: int
  by_province :: "(ustr \<times> int) list"
  issued :: "command list"

definition HOME :: point where
  "HOME = (125.92, 177.82, 42.11, 54.70)"

definition PICKUP :: point where
  "PICKUP = (-8.51, 215.85, -8.19, 92.26)"

definition SAFETY_Z :: rat where
  "SAFETY_Z = 50.0"

text \<open>The four provinces of the class attribute, in the source's order.\<close>

definition initial_DROP_POINTS :: "(ustr \<times> point) list" where
  "initial_DROP_POINTS =
     [([0xE19, 0xE04, 0xE23, 0xE19, 0xE32, 0xE22, 0xE01], (231.49, 0.25, -18.38, 0.06)),
      ([0xE19, 0xE04, 0xE23, 0xE2A, 0xE27, 0xE23, 0xE23, 0xE04, 0xE4C], (232.60, 140.08, -19.86, 31.06)),
      ([0xE40, 0xE0A, 0xE35, 0xE22, 0xE07, 0xE43, 0xE2B, 0xE21, 0xE48], (231.49, 0.25, -18.38, 0.06)),
      ([0xE2A, 0xE23, 0xE30, 0xE1A, 0xE38, 0xE23, 0xE35], (232.60, 140.08, -19.86, 31.06))]"

text \<open>The key used when the province has no drop point (the reserve point).\<close>

definition reserve_point_key :: ustr where
  "reserve_point_key = [0xE08, 0xE38, 0xE14, 0xE2A, 0xE33, 0xE23, 0xE2D, 0xE07]"

text \<open>
  The controller after \<open>__init__\<close> and \<open>connect\<close>: in simulation mode, and holding
  the arm.
\<close>

definition connected_controller :: controller where
  "connected_controller =
     \<lparr>simulation_mode = True, is_connected = True, DROP_POINTS = initial_DROP_POINTS,
      total_picks = 0, successful_drops = 0, failed_drops = 0, by_province = [], issued = []\<rparr>"

definition live_controller :: controller where
  "live_controller = connected_controller\<lparr>simulation_mode := False\<rparr>"

text \<open>
  A method of the controller either returns a value or raises, and changes the
  controller: a function from the state to a result and the new state.
\<close>

type_synonym 'a action = "controller \<Rightarrow> (error + 'a) \<times> controller"

definition returns :: "'a \<Rightarrow> 'a action" where
  "returns v s = (Inr v, s)"

definition and_then :: "'a action \<Rightarrow> ('a \<Rightarrow> 'b action) \<Rightarrow> 'b action" where
  "and_then f g s = (case f s of (Inl e, s') \<Rightarrow> (Inl e, s') | (Inr v, s') \<Rightarrow> g v s')"

text \<open>
  What a call of \<open>move_to\<close>, \<open>suction_on\<close> or \<open>suction_off\<close> meets is an input of the
  model. \<open>Done\<close>: the call returns and the arm did what was asked. \<open>ArmFailed\<close>: the
  command of the arm raised an \<open>Exception\<close> inside the \<open>try\<close> of the wrapper, which
  prints it and returns as if nothing had happened. \<open>Escapes e\<close>: the exception \<open>e\<close>
  leaves the wrapper, because it was raised outside that \<open>try\<close> (by \<open>print\<close> or
  \<open>time.sleep\<close>) or is not an \<open>Exception\<close> (a \<open>KeyboardInterrupt\<close> during the
  motion). \<open>arm n\<close> is the outcome of call number \<open>n\<close> (from 0 over the history
  \<open>issued\<close>); \<open>handler_print\<close> is the exception, if any, that the \<open>print\<close> at the
  head of the handler of \<open>pick_and_place\<close> raises.
\<close>

datatype outcome = Done | ArmFailed | Escapes error

record env =
  arm :: "nat \<Rightarrow> outcome"
  handler_print :: "error option"

definition nothing_raises :: env where
  "nothing_raises = \<lparr>arm = (\<lambda>n. Done), handler_print = None\<rparr>"

text \<open>
  The common shape of the three wrappers: the command of the arm runs inside
  \<open>try ... except Exception\<close>, so its failure does not reach the caller. (In
  simulation mode the arm is not called at all, and \<open>ArmFailed\<close> does not occur.) The
  call is recorded in the history whatever its outcome.
\<close>

definition arm_call :: "env \<Rightarrow> command \<Rightarrow> unit action" where
  "arm_call ev c s =
     (let s' = s\<lparr>issued := issued s @ [c]\<rparr>
      in case arm ev (length (issued s)) of
           Escapes e \<Rightarrow> (Inl e, s')
         | ArmFailed \<Rightarrow> (Inr (), s')
         | Done \<Rightarrow> (Inr (), s'))"


definition move_to :: "env \<Rightarrow> rat \<Rightarrow> rat \<Rightarrow> rat \<Rightarrow> rat \<Rightarrow> unit action" where
  "move_to ev x y z r = arm_call ev (MoveTo x y z r)"

definition suction_on :: "env \<Rightarrow> unit action" where
  "suction_on ev = arm_call ev (Suck True)"

definition suction_off :: "env \<Rightarrow> unit action" where
  "suction_off ev = arm_call ev (Suck False)"

definition move_home :: "env \<Rightarrow> unit action" where
  "move_home ev = (case HOME of (x, y, z, r) \<Rightarrow> move_to ev x y z r)"

definition move_to_pickup :: "env \<Rightarrow> unit action" where
  "move_to_pickup ev =
     (case PICKUP of (x, y, z, r) \<Rightarrow>
        and_then (move_to ev x y SAFETY_Z r) (\<lambda>_. move_to ev x y z r))"

text \<open>\<open>move_to_drop\<close>: no drop point for the province returns \<open>False\<close> without moving.\<close>

definition move_to_drop :: "env \<Rightarrow> ustr \<Rightarrow> bool action" where
  "move_to_drop ev province s =
     (case map_of (DROP_POINTS s) province of
        None \<Rightarrow> (Inr False, s)
      | Some (x, y, z, r) \<Rightarrow>
          and_then (move_to ev x y SAFETY_Z r)
            (\<lambda>_. and_then (move_to ev x y z r) (\<lambda>_. returns True)) s)"

text \<open>The statements after a successful drop: the lift and the statistics.\<close>

definition finish_drop :: "env \<Rightarrow> ustr \<Rightarrow> bool action" where
  "finish_drop ev target_province =
     and_then (suction_off ev)
       (\<lambda>_ s. case map_of (DROP_POINTS s) target_province of
                 None \<Rightarrow> (Inl KeyError, s)
               | Some (x, y, z, r) \<Rightarrow>
                   and_then (move_to ev x y SAFETY_Z r)
                     (\<lambda>_ s'. (Inr True,
                        s'\<lparr>total_picks := total_picks s' + 1,
                           successful_drops := successful_drops s' + 1,
                           by_province := dict_set (by_province s') target_province
                              (dict_get (by_province s') target_province 0 + 1)\<rparr>)) s)"

text \<open>The body of the \<open>try\<close> of \<open>pick_and_place\<close>.\<close>

definition pick_and_place_try :: "env \<Rightarrow> ustr \<Rightarrow> bool action" where
  "pick_and_place_try ev province =
     and_then (move_to_pickup ev)
       (\<lambda>_. and_then (suction_on ev)
          (\<lambda>_. and_then (case PICKUP of (x, y, z, r) \<Rightarrow> move_to ev x y SAFETY_Z r)
             (\<lambda>_ s.
                let target_province =
                      (if map_of (DROP_POINTS s) province \<noteq> None then province
                       else reserve_point_key)
                in and_then (move_to_drop ev target_province)
                     (\<lambda>success.
                        if \<not> success
                        then (\<lambda>s'. (Inr False, s'\<lparr>failed_drops := failed_drops s' + 1\<rparr>))
                        else finish_drop ev target_province) s)))"

text \<open>
  The recovery in the handler of \<open>pick_and_place\<close>: \<open>suction_off\<close> and \<open>move_home\<close>
  inside one inner \<open>try\<close> whose bare \<open>except\<close> passes, then the failure is counted.
\<close>

definition emergency_recovery :: "env \<Rightarrow> controller \<Rightarrow> controller" where
  "emergency_recovery ev s =
     (let s' = snd (and_then (suction_off ev) (\<lambda>_. move_home ev) s)
      in s'\<lparr>failed_drops := failed_drops s' + 1\<rparr>)"

text \<open>
  \<open>pick_and_place\<close>. The result is \<open>Inr b\<close> when the call returns \<open>b\<close> and \<open>Inl e\<close>
  when it raises \<open>e\<close>: the handler \<open>except Exception\<close> does not catch what is not an
  \<open>Exception\<close>, and its first statement, a \<open>print\<close>, stands outside the inner \<open>try\<close>.
\<close>

definition pick_and_place :: "env \<Rightarrow> ustr \<Rightarrow> bool action" where
  "pick_and_place ev province s =
     (if \<not> is_connected s then (Inr False, s)
      else case pick_and_place_try ev province s of
             (Inr b, s') \<Rightarrow> (Inr b, s')
           | (Inl e, s') \<Rightarrow>
               (if \<not> is_Exception e then (Inl e, s')
                else case handler_print ev of
                       Some e' \<Rightarrow> (Inl e', s')
                     | None \<Rightarrow> (Inr False, emergency_recovery ev s')))"


text \<open>Environments used below.\<close>

definition suction_on_fails :: env where
  "suction_on_fails = \<lparr>arm = (\<lambda>n. if n = 2 then ArmFailed else Done), handler_print = None\<rparr>"

definition suction_on_escapes :: env where
  "suction_on_escapes =
     \<lparr>arm = (\<lambda>n. if n = 2 then Escapes OtherError else Done), handler_print = None\<rparr>"

definition suction_on_and_off_escape :: env where
  "suction_on_and_off_escape =
     \<lparr>arm = (\<lambda>n. if n = 2 \<or> n = 3 then Escapes OtherError else Done), handler_print = None\<rparr>"

definition interrupted :: env where
  "interrupted =
     \<lparr>arm = (\<lambda>n. if n = 2 then Escapes KeyboardInterrupt else Done), handler_print = None\<rparr>"

section \<open>The OCR worker of the pipeline (main.py)\<close>

text \<open>
  The entries of the result of \<open>process_single_parcel\<close> that the worker reads;
  \<open>None\<close> is Python's \<open>None\<close>.
\<close>

record parcel_result =
  r_success :: bool
  r_province :: "ustr option"
  r_tracking_number :: "ustr option"
  r_db_saved :: bool

text \<open>An item of the Dobot queue.\<close>

record sort_item =
  item_image_path :: ustr
  item_province :: "ustr option"
  item_tracking :: "ustr option"
  item_result :: parcel_result

text \<open>The part of the pipeline object that the OCR worker reads and writes.\<close>

record pipeline =
  is_running :: bool
  enable_dobot :: bool
  ocr_queue :: "ustr list"
  dobot_queue :: "sort_item list"
  ocr_processed :: int
  ocr_success :: int
  ocr_failed :: int
  db_saved :: int

text \<open>Python's truth value of \<open>result.get('province')\<close>.\<close>

definition truthy :: "ustr option \<Rightarrow> bool" where
  "truthy v = (case v of None \<Rightarrow> False | Some s \<Rightarrow> s \<noteq> [])"

text \<open>
  One iteration of the loop of \<open>ocr_worker\<close>. The call of \<open>process_single_parcel\<close>
  reaches the OCR service and the file system; what it returns for an image path, or
  that it raises (\<open>Inl\<close>), is the parameter \<open>process\<close>. An exception leaves the
  iteration through the handler of the loop, after the item was taken from the queue.
\<close>

definition ocr_worker_iteration :: "(ustr \<Rightarrow> unit + parcel_result) \<Rightarrow> pipeline \<Rightarrow> pipeline" where
  "ocr_worker_iteration process s =
     (case ocr_queue s of
        [] \<Rightarrow> s
      | image_path # waiting \<Rightarrow>
          (case process image_path of
             Inl e \<Rightarrow> s\<lparr>ocr_queue := waiting\<rparr>
           | Inr result \<Rightarrow>
               (let s1 = s\<lparr>ocr_queue := waiting, ocr_processed := ocr_processed s + 1\<rparr>
                in if r_success result then
                     (let s2 = s1\<lparr>ocr_success := ocr_success s1 + 1\<rparr>;
                          province = r_province result;
                          tracking = r_tracking_number result;
                          s3 = (if r_db_saved result then s2\<lparr>db_saved := db_saved s2 + 1\<rparr> else s2)
                      in if enable_dobot s3 \<and> truthy province \<and> province \<noteq> Some unresolved
                         then s3\<lparr>dobot_queue := dobot_queue s3 @
                                  [\<lparr>item_image_path = image_path, item_province = province,
                                    item_tracking = tracking, item_result = result\<rparr>]\<rparr>
                         else s3)
                   else s1\<lparr>ocr_failed := ocr_failed s1 + 1\<rparr>)))"

text \<open>The loop \<open>while self.is_running\<close>, for at most \<open>n\<close> iterations.\<close>

fun ocr_worker :: "(ustr \<Rightarrow> unit + parcel_result) \<Rightarrow> nat \<Rightarrow> pipeline \<Rightarrow> pipeline" where
  "ocr_worker process 0 s = s"
| "ocr_worker process (Suc n) s =
     (if is_running s then ocr_worker process n (ocr_worker_iteration process s) else s)"

text \<open>An item of the Dobot queue with a resolved province.\<close>

definition routed :: "sort_item \<Rightarrow> bool" where
  "routed item = (truthy (item_province item) \<and> item_province item \<noteq> Some unresolved)"

text \<open>Two runs of the worker used below: a parcel for Chiang Mai and an unresolved one.\<close>

definition sample_pipeline :: pipeline where
  "sample_pipeline =
     \<lparr>is_running = True, enable_dobot = True, ocr_queue = [[0x61], [0x62]], dobot_queue = [],
      ocr_processed = 0, ocr_success = 0, ocr_failed = 0, db_saved = 0\<rparr>"

definition sample_process :: "ustr \<Rightarrow> unit + parcel_result" where
  "sample_process image_path =
     (if image_path = [0x61]
      then Inr \<lparr>r_success = True, r_province = Some chiang_mai,
                r_tracking_number = Some [0x54], r_db_saved = False\<rparr>
      else Inr \<lparr>r_success = True, r_province = Some unresolved,
                r_tracking_number = Some [0x55], r_db_saved = False\<rparr>)"

section \<open>Evaluating and characterising the matcher\<close>

lemma star_more_eq:
  "concat (map (\<lambda>(j, c'). if i < j \<and> j \<le> length t then ms r t (j, c') else []) xs) =
   star_more r t i xs"
  by (induction xs) auto

lemma ms_Star_eval: "ms (Star a) t (i, c) = star_more (Star a) t i (ms a t (i, c)) @ [(i, c)]"
  by (simp add: star_more_eq)

lemma ms_LazyStar_eval:
  "ms (LazyStar a) t (i, c) = (i, c) # star_more (LazyStar a) t i (ms a t (i, c))"
  by (simp add: star_more_eq)

lemmas ms_eval = ms.simps(1-4) ms_Star_eval ms_LazyStar_eval ms.simps(7-)

declare ms.simps [simp del]

lemmas re_eval = sublist_code prefix_code ms_eval findall_def finditer_def search_def
  group0_def group_def slice_def plus_def opt_def lazy_plus_def

text \<open>A literal matches where the text continues with it, character by character.\<close>

lemma ms_lit:
  assumes "i \<le> length t"
  shows "ms (lit eq ps) t (i, c) =
     (if i + length ps \<le> length t \<and> list_all2 eq ps (take (length ps) (drop i t))
      then [(i + length ps, c)] else [])"
  using assms
proof (induction ps arbitrary: i)
  case Nil
  then show ?case by (simp add: ms_eval)
next
  case (Cons p ps)
  show ?case
  proof (cases "i < length t")
    case False
    then show ?thesis by (simp add: ms_eval)
  next
    case True
    then have d: "drop i t = t ! i # drop (Suc i) t"
      by (simp add: Cons_nth_drop_Suc)
    have "Suc i \<le> length t" using True by simp
    from Cons.IH[OF this] show ?thesis
      using True by (auto simp: ms_eval d)
  qed
qed

lemma prefix_iff_take: "prefix ps xs \<longleftrightarrow> length ps \<le> length xs \<and> take (length ps) xs = ps"
proof
  assume "prefix ps xs"
  then obtain zs where "xs = ps @ zs" by (auto simp: prefix_def)
  then show "length ps \<le> length xs \<and> take (length ps) xs = ps" by simp
next
  assume "length ps \<le> length xs \<and> take (length ps) xs = ps"
  then have "ps = take (length ps) xs" by simp
  then show "prefix ps xs" by (metis take_is_prefix)
qed

lemma ms_lit_eq:
  assumes "i \<le> length t"
  shows "ms (lit (=) ps) t (i, c) = (if prefix ps (drop i t) then [(i + length ps, c)] else [])"
proof -
  have "(i + length ps \<le> length t \<and> list_all2 (=) ps (take (length ps) (drop i t))) =
        prefix ps (drop i t)"
    using assms by (auto simp: list_all2_eq[symmetric] prefix_iff_take)
  then show ?thesis using assms by (simp add: ms_lit)
qed


text \<open>A greedy star of a character class offers the ends of the run, the longest first.\<close>

lemma ms_star_chr:
  assumes "i \<le> length t"
  shows "ms (Star (Chr Q)) t (i, c) =
         map (\<lambda>j. (j, c)) (rev [i..<Suc (i + length (takeWhile Q (drop i t)))])"
  using assms
proof (induction "length t - i" arbitrary: i)
  case 0
  then show ?case by (simp add: ms_eval)
next
  case (Suc n)
  then have lt: "i < length t" by simp
  then have d: "drop i t = t ! i # drop (Suc i) t"
    by (simp add: Cons_nth_drop_Suc)
  show ?case
  proof (cases "Q (t ! i)")
    case False
    then show ?thesis using lt by (simp add: ms_eval d)
  next
    case True
    have "n = length t - Suc i" using Suc.hyps(2) by simp
    moreover have "Suc i \<le> length t" using lt by simp
    ultimately have ih: "ms (Star (Chr Q)) t (Suc i, c) =
         map (\<lambda>j. (j, c)) (rev [Suc i..<Suc (Suc i + length (takeWhile Q (drop (Suc i) t)))])"
      by (rule Suc.hyps(1))
    have "[i..<Suc (Suc (i + length (takeWhile Q (drop (Suc i) t))))] =
          i # [Suc i..<Suc (Suc (i + length (takeWhile Q (drop (Suc i) t))))]"
      by (simp add: upt_rec)
    then show ?thesis
      using True lt ih by (simp add: ms_eval d)
  qed
qed

lemma takeWhile_drop_Nil:
  assumes "\<not> (i < length t \<and> Q (t ! i))"
  shows "takeWhile Q (drop i t) = []"
proof (cases "i < length t")
  case True
  then have "drop i t = t ! i # drop (Suc i) t"
    by (simp add: Cons_nth_drop_Suc)
  moreover have "\<not> Q (t ! i)" using assms True by simp
  ultimately show ?thesis by (simp only: takeWhile.simps if_False)
next
  case False
  then show ?thesis by simp
qed

lemma ms_plus_chr:
  assumes "i \<le> length t"
  shows "ms (plus (Chr Q)) t (i, c) =
         map (\<lambda>j. (j, c)) (rev [Suc i..<Suc (i + length (takeWhile Q (drop i t)))])"
proof (cases "i < length t \<and> Q (t ! i)")
  case False
  then have "takeWhile Q (drop i t) = []"
    by (rule takeWhile_drop_Nil)
  moreover have "ms (Chr Q) t (i, c) = []"
    using False by (simp add: ms_eval)
  ultimately show ?thesis
    by (simp add: plus_def ms_eval)
next
  case True
  then have d: "drop i t = t ! i # drop (Suc i) t"
    by (simp add: Cons_nth_drop_Suc)
  have s: "Suc i \<le> length t" using True by simp
  have c: "ms (Chr Q) t (i, c) = [(Suc i, c)]"
    using True by (simp add: ms_eval)
  have tw: "takeWhile Q (drop i t) = t ! i # takeWhile Q (drop (Suc i) t)"
    using True by (simp add: d)
  show ?thesis
    by (simp add: plus_def ms.simps(3) c ms_star_chr[OF s] tw)
qed

section \<open>The province resolver\<close>

lemma match_from_None: "(\<And>i. i \<in> set ps \<Longrightarrow> ms r t (i, []) = []) \<Longrightarrow> match_from r t ps = None"
  by (induction ps) auto

lemma search_at_0: "ms r t (0, []) = (e, c) # rest \<Longrightarrow> search r t = Some (0, e, c)"
  by (simp add: search_def upt_rec)

lemma prefix_drop_sublist: "prefix ps (drop i t) \<Longrightarrow> sublist ps t"
  by (metis append_take_drop_id prefix_def sublist_appendI)

text \<open>A pattern that begins with a literal matches only in a text that contains the literal.\<close>

lemma search_lit_None:
  assumes "\<not> sublist pre t"
  shows "search (Seq (lit (=) pre) r) t = None"
proof -
  have "ms (Seq (lit (=) pre) r) t (i, []) = []" if "i \<in> set [0..<Suc (length t)]" for i
  proof -
    have "i \<le> length t" using that by auto
    moreover have "\<not> prefix pre (drop i t)" using assms prefix_drop_sublist by blast
    ultimately show ?thesis by (simp add: ms.simps(3) ms_lit_eq)
  qed
  then show ?thesis unfolding search_def by (rule match_from_None)
qed

text \<open>The literal followed by a name of non-space, non-digit characters: the group is the name.\<close>

lemma search_prefixed_name:
  assumes "P \<noteq> []" and "list_all Q P"
  shows "search (Seq (lit (=) pre) (Group 1 (plus (Chr Q)))) (pre @ P) =
         Some (0, length pre + length P, [(1, length pre, length pre + length P)])"
proof -
  have tw: "takeWhile Q P = P"
    using assms(2) by (simp add: list_all_iff)
  obtain n where n: "length P = Suc n"
    using assms(1) by (cases P) auto
  have "ms (plus (Chr Q)) (pre @ P) (length pre, []) =
        map (\<lambda>j. (j, [])) (rev [Suc (length pre)..<Suc (length pre + length P)])"
    using ms_plus_chr[of "length pre" "pre @ P" Q "[]"] by (simp add: tw)
  also have "\<dots> = (length pre + length P, []) #
        map (\<lambda>j. (j, [])) (rev [Suc (length pre)..<length pre + length P])"
    by (simp add: n)
  finally have "ms (Seq (lit (=) pre) (Group 1 (plus (Chr Q)))) (pre @ P) (0, []) =
      (length pre + length P, [(1, length pre, length pre + length P)]) #
      map (\<lambda>(j, c'). (j, (1, length pre, j) # c'))
        (map (\<lambda>j. (j, [])) (rev [Suc (length pre)..<length pre + length P]))"
    by (simp add: ms.simps(3,7) ms_lit_eq)
  then show ?thesis by (rule search_at_0)
qed

lemma find_unique:
  assumes "x \<in> set xs" and "Q x" and "\<forall>y\<in>set xs. Q y \<longrightarrow> y = x"
  shows "find Q xs = Some x"
  using assms(1,3)
proof (induction xs)
  case Nil
  then show ?case by simp
next
  case (Cons a xs)
  show ?case
  proof (cases "Q a")
    case True
    then have "a = x" using Cons.prems(2) by simp
    then show ?thesis using True by simp
  next
    case False
    then have "a \<noteq> x" using assms(2) by blast
    then have "x \<in> set xs" using Cons.prems(1) by simp
    moreover have "\<forall>y\<in>set xs. Q y \<longrightarrow> y = x" using Cons.prems(2) by simp
    ultimately have "find Q xs = Some x" by (rule Cons.IH)
    then show ?thesis using False by simp
  qed
qed

lemma strip_id:
  assumes "s \<noteq> []" and "\<not> is_space (hd s)" and "\<not> is_space (last s)"
  shows "strip s = s"
proof -
  have a: "dropWhile is_space s = s"
    using assms(1,2) by (cases s) simp_all
  have "rev s \<noteq> []" using assms(1) by simp
  then obtain y ys where r: "rev s = y # ys" by (cases "rev s") auto
  have "hd (rev s) = last s" using assms(1) by (simp add: hd_rev)
  then have "\<not> is_space y" using assms(3) r by simp
  then have b: "dropWhile is_space (rev s) = rev s" by (simp add: r)
  show ?thesis by (simp add: strip_def a b)
qed


text \<open>Facts about the 77 names, by evaluation.\<close>

lemma names_thai_letters:
  "list_all (\<lambda>P. P \<noteq> [] \<and> list_all thai_letter P) all_provinces"
  by (simp add: all_provinces_def thai_letter_def)

lemma names_without_changwat: "list_all (\<lambda>P. \<not> sublist changwat P) all_provinces"
  by (simp add: all_provinces_def changwat_def sublist_code prefix_code)

lemma names_pairwise:
  "list_all (\<lambda>p. list_all (\<lambda>q. sublist q p \<longrightarrow> q = p) all_provinces) all_provinces"
  by (simp add: all_provinces_def sublist_code prefix_code)

lemma thai_letter_not_space_digit: "thai_letter c \<Longrightarrow> not_space_digit c"
  by (simp add: thai_letter_def not_space_digit_def is_space_def is_decimal_def
      space_ranges_def decimal_ranges_def)

lemma thai_letter_not_space: "thai_letter c \<Longrightarrow> \<not> is_space c"
  using thai_letter_not_space_digit by (simp add: not_space_digit_def)

lemma replace_spaces_thai: "list_all thai_letter s \<Longrightarrow> replace_spaces s = s"
  by (induction s) (auto simp: replace_spaces_def thai_letter_def)

lemma province_facts:
  assumes "P \<in> set all_provinces"
  shows "P \<noteq> []" and "list_all thai_letter P" and "\<not> sublist changwat P"
    and "\<And>q. q \<in> set all_provinces \<Longrightarrow> sublist q P \<Longrightarrow> q = P"
    and "\<And>q. q \<in> set all_provinces \<Longrightarrow> sublist P q \<Longrightarrow> q = P"
proof -
  show "P \<noteq> []" and "list_all thai_letter P"
    using names_thai_letters assms by (auto simp: list_all_iff)
  show "\<not> sublist changwat P"
    using names_without_changwat assms by (auto simp: list_all_iff)
  show "q = P" if "q \<in> set all_provinces" "sublist q P" for q
    using names_pairwise assms that by (auto simp: list_all_iff)
  show "q = P" if "q \<in> set all_provinces" "sublist P q" for q
    using names_pairwise assms that by (auto simp: list_all_iff)
qed

lemma no_dot_in_letters:
  assumes "list_all thai_letter s" and "list_all thai_letter pre"
  shows "\<not> sublist cho_dot (pre @ s)"
proof
  assume "sublist cho_dot (pre @ s)"
  then have "set cho_dot \<subseteq> set (pre @ s)" by (rule set_mono_sublist)
  then have "0x2E \<in> set pre \<union> set s" by (simp add: cho_dot_def)
  then have "thai_letter 0x2E" using assms by (auto simp: list_all_iff)
  then show False by (simp add: thai_letter_def)
qed

lemma changwat_letters: "list_all thai_letter changwat"
  by (simp add: changwat_def thai_letter_def)

lemma direct_layer_name:
  assumes "P \<in> set all_provinces"
  shows "direct_layer P = Some P"
  unfolding direct_layer_def
proof (rule find_unique)
  show "P \<in> set all_provinces" by (rule assms)
  show "sublist P P \<or> sublist (replace_spaces P) (replace_spaces P)" by simp
  show "\<forall>y\<in>set all_provinces.
          sublist y P \<or> sublist (replace_spaces y) (replace_spaces P) \<longrightarrow> y = P"
  proof (intro ballI impI)
    fix y assume y: "y \<in> set all_provinces"
      and s: "sublist y P \<or> sublist (replace_spaces y) (replace_spaces P)"
    have "replace_spaces y = y" "replace_spaces P = P"
      using province_facts(2)[OF y] province_facts(2)[OF assms]
      by (simp_all add: replace_spaces_thai)
    then have "sublist y P" using s by simp
    then show "y = P" using province_facts(4)[OF assms y] by simp
  qed
qed

lemma candidate_name:
  assumes "P \<in> set all_provinces"
  shows "find (\<lambda>province. P = province \<or> sublist P province) all_provinces = Some P"
proof (rule find_unique)
  show "P \<in> set all_provinces" by (rule assms)
  show "P = P \<or> sublist P P" by simp
  show "\<forall>y\<in>set all_provinces. P = y \<or> sublist P y \<longrightarrow> y = P"
    using province_facts(5)[OF assms] by auto
qed

lemma strip_letters:
  assumes "s \<noteq> []" and "list_all thai_letter s" and "pre = [] \<or> \<not> is_space (hd pre)"
  shows "strip (pre @ s) = pre @ s"
proof (rule strip_id)
  show "pre @ s \<noteq> []" using assms(1) by simp
  have "thai_letter (hd s)" "thai_letter (last s)"
    using assms by (auto simp: list_all_iff)
  then have h: "\<not> is_space (hd s)" and l: "\<not> is_space (last s)"
    by (auto dest: thai_letter_not_space)
  show "\<not> is_space (hd (pre @ s))" using assms(3) h by (cases pre) auto
  show "\<not> is_space (last (pre @ s))" using l assms(1) by simp
qed


lemma exact_name:
  assumes "P \<in> set all_provinces"
  shows "extract_province_from_text P = Some P"
proof -
  note f = province_facts[OF assms]
  have st: "strip P = P" using strip_letters[of P "[]"] f(1,2) by simp
  have "\<not> sublist cho_dot P" using no_dot_in_letters[of P "[]"] f(2) by simp
  then have p1: "search (Seq (lit (=) cho_dot) (Group 1 (plus (Chr not_space_digit)))) P = None"
    by (rule search_lit_None)
  have p2: "search (Seq (lit (=) changwat) (Group 1 (plus (Chr not_space_digit)))) P = None"
    using f(3) by (rule search_lit_None)
  have "pattern_layer P province_patterns = None"
    using p1 p2 by (simp add: province_patterns_def cho_dot_def changwat_def)
  then show ?thesis
    using f(1) by (simp add: extract_province_from_text_def st direct_layer_name[OF assms])
qed

lemma prefixed_group:
  "group (pre @ P) (0, length pre + length P, [(Suc 0, length pre, length pre + length P)])
     (Suc 0) = P"
  by (simp add: group_def slice_def)

lemma cho_dot_name:
  assumes "P \<in> set all_provinces"
  shows "extract_province_from_text (cho_dot @ P) = Some P"
proof -
  note f = province_facts[OF assms]
  have nsd: "list_all not_space_digit P"
    using f(2) by (auto simp: list_all_iff dest: thai_letter_not_space_digit)
  have "\<not> is_space (hd cho_dot)"
    by (simp add: cho_dot_def is_space_def space_ranges_def)
  then have st: "strip (cho_dot @ P) = cho_dot @ P"
    using strip_letters[of P cho_dot] f(1,2) by simp
  have stP: "strip P = P" using strip_letters[of P "[]"] f(1,2) by simp
  have p1: "search (Seq (lit (=) cho_dot) (Group 1 (plus (Chr not_space_digit)))) (cho_dot @ P) =
      Some (0, length cho_dot + length P, [(1, length cho_dot, length cho_dot + length P)])"
    using f(1) nsd by (rule search_prefixed_name)
  have "pattern_layer (cho_dot @ P) province_patterns = Some P"
    using p1 candidate_name[OF assms]
    by (simp add: province_patterns_def cho_dot_def[symmetric] prefixed_group stP Let_def)
  then show ?thesis
    using f(1) by (simp add: extract_province_from_text_def st Let_def)
qed

lemma changwat_name:
  assumes "P \<in> set all_provinces"
  shows "extract_province_from_text (changwat @ P) = Some P"
proof -
  note f = province_facts[OF assms]
  have nsd: "list_all not_space_digit P"
    using f(2) by (auto simp: list_all_iff dest: thai_letter_not_space_digit)
  have "\<not> is_space (hd changwat)"
    by (simp add: changwat_def is_space_def space_ranges_def)
  then have st: "strip (changwat @ P) = changwat @ P"
    using strip_letters[of P changwat] f(1,2) by simp
  have stP: "strip P = P" using strip_letters[of P "[]"] f(1,2) by simp
  have "\<not> sublist cho_dot (changwat @ P)"
    using f(2) changwat_letters by (rule no_dot_in_letters)
  then have p1: "search (Seq (lit (=) cho_dot) (Group 1 (plus (Chr not_space_digit))))
      (changwat @ P) = None"
    by (rule search_lit_None)
  have p2: "search (Seq (lit (=) changwat) (Group 1 (plus (Chr not_space_digit)))) (changwat @ P) =
      Some (0, length changwat + length P, [(1, length changwat, length changwat + length P)])"
    using f(1) nsd by (rule search_prefixed_name)
  have "pattern_layer (changwat @ P) province_patterns = Some P"
    using p1 p2 candidate_name[OF assms]
    by (simp add: province_patterns_def cho_dot_def[symmetric] changwat_def[symmetric]
        prefixed_group stP Let_def)
  then show ?thesis
    using f(1) by (simp add: extract_province_from_text_def st Let_def)
qed


text \<open>
  C4. Every canonical province name resolves to itself: alone, after the abbreviation
  (CHO CHAN and a full stop) and after the word for province. None of the three forms
  resolves to another province or to \<open>None\<close>.
\<close>

theorem canonical_names_resolve:
  "\<forall>P\<in>set all_provinces.
     extract_province_from_text P = Some P \<and>
     extract_province_from_text (cho_dot @ P) = Some P \<and>
     extract_province_from_text (changwat @ P) = Some P"
  using exact_name cho_dot_name changwat_name by blast

theorem canonical_names_resolve_witness:
  "chiang_mai \<in> set all_provinces \<and>
   extract_province_from_text chiang_mai = Some chiang_mai \<and>
   extract_province_from_text (cho_dot @ chiang_mai) = Some chiang_mai \<and>
   extract_province_from_text (changwat @ chiang_mai) = Some chiang_mai"
proof -
  have m: "chiang_mai \<in> set all_provinces"
    by (simp add: all_provinces_def chiang_mai_def)
  show ?thesis
    using m canonical_names_resolve by blast
qed

text \<open>Every canonical name is one Thai word, and a word found in a text is a piece of it.\<close>

lemma province_is_one_word: "list_all (\<lambda>P. findall thai_words P = [P]) all_provinces"
  by (simp add: re_eval thai_words_def thai_char_def all_provinces_def)

lemma slice_sublist: "sublist (slice t a b) t"
proof -
  have "drop a t = take (b - a) (drop a t) @ drop (b - a) (drop a t)"
    by (simp only: append_take_drop_id)
  then have "t = take a t @ (take (b - a) (drop a t) @ drop (b - a) (drop a t))"
    by (simp only: append_take_drop_id)
  then show ?thesis
    unfolding slice_def sublist_def by blast
qed

lemma findall_sublist: "w \<in> set (findall r t) \<Longrightarrow> sublist w t"
  by (auto simp: findall_def group0_def slice_sublist)

lemma fuzzy_layer_redundant:
  assumes "direct_layer text = None"
  shows "fuzzy_layer text = None"
proof -
  have no: "\<not> sublist p text" if "p \<in> set all_provinces" for p
    using assms that by (auto simp: direct_layer_def find_None_iff)
  have "set (findall thai_words p) \<inter> set (findall thai_words text) = {}"
    if "p \<in> set all_provinces" for p
  proof -
    have "findall thai_words p = [p]"
      using province_is_one_word that by (simp add: list_all_iff)
    moreover have "p \<notin> set (findall thai_words text)"
      using findall_sublist no[OF that] by blast
    ultimately show ?thesis by simp
  qed
  then show ?thesis
    by (simp add: fuzzy_layer_def find_None_iff Let_def)
qed

text \<open>
  C10. The third layer of the resolver (Thai words shared between the text and a
  province name) never decides: for every text the resolver returns what it returns
  with that layer removed. A name is a single Thai word, so a text that shares a word
  with it contains the name, and the second layer has already returned a province.
\<close>

theorem fuzzy_layer_never_decides:
  "extract_province_from_text text = extract_province_two_layers text"
  by (simp add: extract_province_from_text_def extract_province_two_layers_def Let_def
      fuzzy_layer_redundant split: option.splits)

theorem fuzzy_layer_never_decides_witness:
  "extract_province_from_text (cho_dot @ chon_buri) = extract_province_two_layers (cho_dot @ chon_buri) \<and>
   extract_province_two_layers (cho_dot @ chon_buri) = Some chon_buri"
proof -
  have "chon_buri \<in> set all_provinces"
    by (simp add: all_provinces_def chon_buri_def)
  then have "extract_province_from_text (cho_dot @ chon_buri) = Some chon_buri"
    by (rule cho_dot_name)
  then show ?thesis
    using fuzzy_layer_never_decides [of "cho_dot @ chon_buri"] by simp
qed

section \<open>The sender/recipient splitter\<close>

lemma scan_positions:
  "m \<in> set (scan r t nxt ps) \<Longrightarrow> fst m \<in> set ps \<and> ms r t (fst m, []) \<noteq> []"
proof (induction ps arbitrary: nxt)
  case Nil
  then show ?case by simp
next
  case (Cons i ps)
  show ?case
  proof (cases "i < nxt")
    case True
    then show ?thesis using Cons by auto
  next
    case False
    show ?thesis
    proof (cases "ms r t (i, [])")
      case Nil
      then show ?thesis using False Cons by auto
    next
      case (Cons a rest)
      obtain e c where a: "a = (e, c)" by (cases a)
      have "m = (i, e, c) \<or> m \<in> set (scan r t (max e (Suc i)) ps)"
        using Cons.prems False Cons a by simp
      then show ?thesis
      proof
        assume "m = (i, e, c)"
        then show ?thesis using Cons by simp
      next
        assume "m \<in> set (scan r t (max e (Suc i)) ps)"
        then show ?thesis using Cons.IH by auto
      qed
    qed
  qed
qed

lemma scan_nonempty:
  "j \<in> set ps \<Longrightarrow> nxt \<le> j \<Longrightarrow> ms r t (j, []) \<noteq> [] \<Longrightarrow> scan r t nxt ps \<noteq> []"
proof (induction ps arbitrary: nxt)
  case Nil
  then show ?case by simp
next
  case (Cons i ps)
  show ?case
  proof (cases "i < nxt")
    case True
    then have "j \<in> set ps" using Cons.prems by auto
    then show ?thesis using True Cons by simp
  next
    case False
    show ?thesis
    proof (cases "ms r t (i, [])")
      case Nil
      then have "j \<in> set ps" using Cons.prems by auto
      then show ?thesis using False Nil Cons by simp
    next
      case (Cons a rest)
      then show ?thesis using False by (simp split: prod.splits)
    qed
  qed
qed

lemma finditer_start:
  assumes "p \<in> set (map mstart (finditer r t))"
  shows "p \<le> length t \<and> ms r t (p, []) \<noteq> []"
proof -
  obtain m where "m \<in> set (scan r t 0 [0..<Suc (length t)])" and "p = fst m"
    using assms by (auto simp: finditer_def mstart_def)
  then have "fst m \<in> set [0..<Suc (length t)] \<and> ms r t (fst m, []) \<noteq> []"
    using scan_positions[of m r t 0] by blast
  then show ?thesis using \<open>p = fst m\<close> by (simp del: upt_Suc add: less_Suc_eq_le)
qed

lemma finditer_nonempty:
  assumes "j \<le> length t" and "ms r t (j, []) \<noteq> []"
  shows "finditer r t \<noteq> []"
proof -
  have "j \<in> set [0..<Suc (length t)]"
    using assms(1) by (simp del: upt_Suc add: less_Suc_eq_le)
  then show ?thesis
    unfolding finditer_def using assms(2) by (intro scan_nonempty[of j]) simp_all
qed

text \<open>A marker pattern matches at a position exactly where its word stands.\<close>

lemma ms_star_nonempty: "ms (Star a) t s \<noteq> []"
  by (cases s) (simp add: ms.simps)

lemma ms_opt_nonempty: "ms (opt a) t s \<noteq> []"
  by (simp add: opt_def ms.simps)

lemma ms_marker:
  assumes "p \<le> length t"
  shows "ms (marker w) t (p, []) \<noteq> [] \<longleftrightarrow> word_at w t p"
proof -
  have tail: "ms (Seq (Star (Chr is_space)) (opt (Chr colon))) t s \<noteq> []" for s
  proof -
    obtain x xs where "ms (Star (Chr is_space)) t s = x # xs"
      using ms_star_nonempty by (cases "ms (Star (Chr is_space)) t s") auto
    then show ?thesis using ms_opt_nonempty by (simp add: ms.simps(3))
  qed
  show ?thesis
    using assms tail by (simp add: marker_def ms.simps(3) ms_lit word_at_def)
qed

lemma contains_word_iff:
  "contains_word ws t \<longleftrightarrow> (\<exists>w\<in>set ws. \<exists>p\<le>length t. word_at w t p)"
  by (simp del: upt_Suc add: contains_word_def list_ex_iff less_Suc_eq_le Bex_def)

lemma marker_positions_iff:
  "marker_positions (map marker ws) t \<noteq> [] \<longleftrightarrow> contains_word ws t"
proof
  assume "marker_positions (map marker ws) t \<noteq> []"
  then obtain p where "p \<in> set (marker_positions (map marker ws) t)"
    by (cases "marker_positions (map marker ws) t") auto
  then obtain w where w: "w \<in> set ws" and p: "p \<in> set (map mstart (finditer (marker w) t))"
    by (auto simp: marker_positions_def)
  have "p \<le> length t \<and> word_at w t p"
    using finditer_start[OF p] ms_marker by blast
  then show "contains_word ws t"
    using w by (auto simp: contains_word_iff)
next
  assume "contains_word ws t"
  then obtain w p where w: "w \<in> set ws" and p: "p \<le> length t" and a: "word_at w t p"
    by (auto simp: contains_word_iff)
  then have "finditer (marker w) t \<noteq> []"
    using finditer_nonempty[of p t "marker w"] ms_marker by blast
  then show "marker_positions (map marker ws) t \<noteq> []"
    using w by (auto simp: marker_positions_def)
qed

lemma marker_position_word:
  assumes "p \<in> set (marker_positions (map marker ws) t)"
  shows "\<exists>w\<in>set ws. word_at w t p"
proof -
  obtain w where w: "w \<in> set ws" and p: "p \<in> set (map mstart (finditer (marker w) t))"
    using assms by (auto simp: marker_positions_def)
  have "word_at w t p" using finditer_start[OF p] ms_marker by blast
  then show ?thesis using w by blast
qed

lemma list_min_in: "xs \<noteq> [] \<Longrightarrow> list_min xs \<in> set xs"
  by (induction xs rule: list_min.induct) (auto simp: min_def)


lemma word_at_nth:
  assumes "word_at w t p" and "k < length w"
  shows "p + k < length t \<and> ic (w ! k) (t ! (p + k))"
proof -
  have l: "p + length w \<le> length t"
    and a: "list_all2 ic w (take (length w) (drop p t))"
    using assms(1) by (simp_all add: word_at_def)
  have "ic (w ! k) (take (length w) (drop p t) ! k)"
    using a assms(2) by (rule list_all2_nthD)
  then show ?thesis using l assms(2) by simp
qed

text \<open>No position starts a sender word and a recipient word, and none starts with white space.\<close>

lemma ic_thai: "ic 0xE1C x \<longleftrightarrow> x = 0xE1C" "ic 0xE2A x \<longleftrightarrow> x = 0xE2A" "ic 0xE23 x \<longleftrightarrow> x = 0xE23"
  by (auto simp: ic_def)

lemma ic_s: "ic 0x73 x \<longleftrightarrow> x = 0x73 \<or> x = 0x53 \<or> x = 0x17F"
  by (auto simp: ic_def)

lemma ic_f: "ic 0x66 x \<longleftrightarrow> x = 0x66 \<or> x = 0x46"
  by (auto simp: ic_def)

lemma ic_r: "ic 0x72 x \<longleftrightarrow> x = 0x72 \<or> x = 0x52"
  by (auto simp: ic_def)

lemma ic_t: "ic 0x74 x \<longleftrightarrow> x = 0x74 \<or> x = 0x54"
  by (auto simp: ic_def)

lemma sender_word_head:
  assumes "w \<in> set sender_words" and "word_at w t p"
  shows "p < length t \<and>
         (t ! p = 0xE1C \<and> t ! (p + 3) = 0xE2A \<or> t ! p \<in> {0x73, 0x53, 0x17F, 0x66, 0x46})"
proof -
  consider "w = [0xE1C, 0xE39, 0xE49, 0xE2A, 0xE48, 0xE07]" | "w = [0x73, 0x65, 0x6E, 0x64, 0x65, 0x72]"
    | "w = [0x66, 0x72, 0x6F, 0x6D]"
    using assms(1) by (auto simp: sender_words_def)
  then show ?thesis
  proof cases
    case 1
    then show ?thesis
      using word_at_nth[OF assms(2), of 0] word_at_nth[OF assms(2), of 3] by (simp add: ic_thai)
  next
    case 2
    then show ?thesis using word_at_nth[OF assms(2), of 0] by (auto simp: ic_s)
  next
    case 3
    then show ?thesis using word_at_nth[OF assms(2), of 0] by (auto simp: ic_f)
  qed
qed

lemma recipient_word_head:
  assumes "w \<in> set recipient_words" and "word_at w t p"
  shows "p < length t \<and>
         (t ! p = 0xE1C \<and> t ! (p + 3) = 0xE23 \<or> t ! p \<in> {0x72, 0x52, 0x74, 0x54})"
proof -
  consider "w = [0xE1C, 0xE39, 0xE49, 0xE23, 0xE31, 0xE1A]"
    | "w = [0x72, 0x65, 0x63, 0x69, 0x70, 0x69, 0x65, 0x6E, 0x74]" | "w = [0x74, 0x6F]"
    using assms(1) by (auto simp: recipient_words_def)
  then show ?thesis
  proof cases
    case 1
    then show ?thesis
      using word_at_nth[OF assms(2), of 0] word_at_nth[OF assms(2), of 3] by (simp add: ic_thai)
  next
    case 2
    then show ?thesis using word_at_nth[OF assms(2), of 0] by (auto simp: ic_r)
  next
    case 3
    then show ?thesis using word_at_nth[OF assms(2), of 0] by (auto simp: ic_t)
  qed
qed

lemma sender_not_recipient:
  assumes "ws \<in> set sender_words" and "word_at ws t p"
    and "wr \<in> set recipient_words" and "word_at wr t p"
  shows False
  using sender_word_head[OF assms(1,2)] recipient_word_head[OF assms(3,4)] by auto

lemma visible_chars:
  "x \<in> {0xE1C, 0x73, 0x53, 0x17F, 0x66, 0x46, 0x72, 0x52, 0x74, 0x54} \<Longrightarrow> \<not> is_space x"
  by (auto simp: is_space_def space_ranges_def)

lemma marker_word_not_space:
  assumes "w \<in> set sender_words \<union> set recipient_words" and "word_at w t p"
  shows "p < length t \<and> \<not> is_space (t ! p)"
proof -
  have "p < length t \<and> t ! p \<in> {0xE1C, 0x73, 0x53, 0x17F, 0x66, 0x46, 0x72, 0x52, 0x74, 0x54}"
    using assms sender_word_head[of w t p] recipient_word_head[of w t p] by auto
  then show ?thesis using visible_chars by blast
qed

text \<open>Stripping a string that begins with a visible character removes trailing white space only.\<close>

lemma strip_visible_head:
  assumes "u \<noteq> []" and "\<not> is_space (hd u)"
  shows "strip u \<noteq> [] \<and> (\<exists>w. list_all is_space w \<and> u = strip u @ w)"
proof -
  have a: "dropWhile is_space u = u"
    using assms by (cases u) simp_all
  then have s: "strip u = rev (dropWhile is_space (rev u))"
    by (simp add: strip_def)
  have "rev u = takeWhile is_space (rev u) @ dropWhile is_space (rev u)"
    by simp
  then have "u = rev (dropWhile is_space (rev u)) @ rev (takeWhile is_space (rev u))"
    by (metis rev_append rev_rev_ident)
  then have u: "u = strip u @ rev (takeWhile is_space (rev u))"
    using s by simp
  have w: "list_all is_space (rev (takeWhile is_space (rev u)))"
    by (simp add: list_all_iff) (meson set_takeWhileD)
  have "strip u \<noteq> []"
  proof
    assume "strip u = []"
    then have "u = rev (takeWhile is_space (rev u))" using u by simp
    then have "list_all is_space u" using w by simp
    then have "is_space (hd u)" using assms(1) by (cases u) simp_all
    then show False using assms(2) by simp
  qed
  then show ?thesis using u w by blast
qed

lemmas split_eval = smart_split_sender_recipient_def marker_positions_def sender_markers_def
  recipient_markers_def sender_words_def recipient_words_def marker_def colon_def ic_def
  mstart_def strip_def is_space_def space_ranges_def lit.simps scan.simps Let_def

lemma drop_visible:
  assumes "p < length t" and "\<not> is_space (t ! p)"
  shows "strip (drop p t) \<noteq> [] \<and> (\<exists>w. list_all is_space w \<and> drop p t = strip (drop p t) @ w)"
proof (rule strip_visible_head)
  show "drop p t \<noteq> []" using assms(1) by simp
  show "\<not> is_space (hd (drop p t))" using assms by (simp add: hd_drop_conv_nth)
qed

lemma slice_visible:
  assumes "p < q" and "q \<le> length t" and "\<not> is_space (t ! p)"
  shows "strip (slice t p q) \<noteq> [] \<and>
         (\<exists>w. list_all is_space w \<and> slice t p q = strip (slice t p q) @ w)"
proof (rule strip_visible_head)
  show "slice t p q \<noteq> []" using assms(1,2) by (simp add: slice_def)
  have "hd (slice t p q) = t ! p"
    using assms(1,2) by (simp add: slice_def hd_drop_conv_nth)
  then show "\<not> is_space (hd (slice t p q))" using assms(3) by simp
qed

lemma drop_slice: "p \<le> q \<Longrightarrow> drop p t = slice t p q @ drop q t"
proof -
  assume "p \<le> q"
  then have "drop q t = drop (q - p) (drop p t)" by simp
  then show ?thesis unfolding slice_def by (metis append_take_drop_id)
qed

lemma ordered_halves:
  assumes "p < q" and "q < length t" and "\<not> is_space (t ! p)" and "\<not> is_space (t ! q)"
  shows "strip (slice t p q) \<noteq> [] \<and> strip (drop q t) \<noteq> [] \<and>
         (\<exists>w1 w2. list_all is_space w1 \<and> list_all is_space w2 \<and>
            drop p t = strip (slice t p q) @ w1 @ strip (drop q t) @ w2)"
proof -
  obtain w1 where w1: "list_all is_space w1" "slice t p q = strip (slice t p q) @ w1"
    and n1: "strip (slice t p q) \<noteq> []"
    using slice_visible[of p q t] assms by auto
  obtain w2 where w2: "list_all is_space w2" "drop q t = strip (drop q t) @ w2"
    and n2: "strip (drop q t) \<noteq> []"
    using drop_visible[of q t] assms by auto
  have "drop p t = slice t p q @ drop q t"
    using assms(1) by (intro drop_slice) simp
  then have "drop p t = strip (slice t p q) @ w1 @ strip (drop q t) @ w2"
    using w1(2) w2(2) by (metis append.assoc)
  then show ?thesis using n1 n2 w1(1) w2(1) by blast
qed

text \<open>
  C2, amended: when the text contains a sender marker word and a recipient marker word,
  both halves returned by \<open>smart_split_sender_recipient\<close> are non-empty, and the
  text from the earlier of the first sender marker and the first recipient marker on is
  the two halves in their order in the text, each followed by white space only. (What
  stands before the earlier marker is in neither half.)
\<close>

theorem split_at_markers:
  assumes "contains_word sender_words text" and "contains_word recipient_words text"
  shows "fst (smart_split_sender_recipient text) \<noteq> [] \<and>
         snd (smart_split_sender_recipient text) \<noteq> [] \<and>
         (\<exists>w1 w2. list_all is_space w1 \<and> list_all is_space w2 \<and>
            drop (min (list_min (marker_positions sender_markers text))
                      (list_min (marker_positions recipient_markers text))) text =
            (if list_min (marker_positions sender_markers text)
                  < list_min (marker_positions recipient_markers text)
             then fst (smart_split_sender_recipient text) @ w1 @
                  snd (smart_split_sender_recipient text) @ w2
             else snd (smart_split_sender_recipient text) @ w1 @
                  fst (smart_split_sender_recipient text) @ w2))"
proof -
  define s where "s = list_min (marker_positions sender_markers text)"
  define r where "r = list_min (marker_positions recipient_markers text)"
  have ns: "marker_positions sender_markers text \<noteq> []"
    and nr: "marker_positions recipient_markers text \<noteq> []"
    using assms by (simp_all add: sender_markers_def recipient_markers_def marker_positions_iff)
  have "s \<in> set (marker_positions (map marker sender_words) text)"
    using ns unfolding s_def sender_markers_def by (rule list_min_in)
  then obtain ws where ws: "ws \<in> set sender_words" "word_at ws text s"
    using marker_position_word by blast
  have "r \<in> set (marker_positions (map marker recipient_words) text)"
    using nr unfolding r_def recipient_markers_def by (rule list_min_in)
  then obtain wr where wr: "wr \<in> set recipient_words" "word_at wr text r"
    using marker_position_word by blast
  have vs: "s < length text \<and> \<not> is_space (text ! s)"
    using ws by (intro marker_word_not_space[of ws]) auto
  have vr: "r < length text \<and> \<not> is_space (text ! r)"
    using wr by (intro marker_word_not_space[of wr]) auto
  have ne: "s \<noteq> r"
    using sender_not_recipient[OF ws(1) ws(2) wr(1)] wr(2) by auto
  have sp: "smart_split_sender_recipient text =
      (if s < r then (strip (slice text s r), strip (drop r text))
       else (strip (drop s text), strip (slice text r s)))"
    using ns nr by (simp add: smart_split_sender_recipient_def Let_def s_def r_def)
  show ?thesis
  proof (cases "s < r")
    case True
    then show ?thesis
      using ordered_halves[of s r "text"] vs vr
      unfolding sp s_def[symmetric] r_def[symmetric] by (simp add: min_def)
  next
    case False
    then have "r < s" using ne by simp
    then show ?thesis
      using ordered_halves[of r s "text"] vs vr False
      unfolding sp s_def[symmetric] r_def[symmetric] by (simp add: min_def)
  qed
qed

lemma heading_label_split:
  "smart_split_sender_recipient label_with_heading =
     ([0x66, 0x72, 0x6F, 0x6D, 0x20, 0x41], [0x74, 0x6F, 0x20, 0x42])"
  by (simp add: label_with_heading_def split_eval re_eval)

lemma heading_label_markers:
  "contains_word sender_words label_with_heading \<and>
   contains_word recipient_words label_with_heading"
proof -
  have s: "word_at [0x66, 0x72, 0x6F, 0x6D] label_with_heading 4"
    by (simp add: word_at_def label_with_heading_def ic_def)
  have r: "word_at [0x74, 0x6F] label_with_heading 11"
    by (simp add: word_at_def label_with_heading_def ic_def)
  have "contains_word sender_words label_with_heading"
    unfolding contains_word_iff using s
    by (intro bexI[of _ "[0x66, 0x72, 0x6F, 0x6D]"] exI[of _ 4])
       (simp_all add: sender_words_def label_with_heading_def)
  moreover have "contains_word recipient_words label_with_heading"
    unfolding contains_word_iff using r
    by (intro bexI[of _ "[0x74, 0x6F]"] exI[of _ 11])
       (simp_all add: recipient_words_def label_with_heading_def)
  ultimately show ?thesis by blast
qed

theorem split_at_markers_witness:
  "contains_word sender_words label_with_heading \<and>
   contains_word recipient_words label_with_heading \<and>
   fst (smart_split_sender_recipient label_with_heading) = [0x66, 0x72, 0x6F, 0x6D, 0x20, 0x41] \<and>
   fst (smart_split_sender_recipient label_with_heading) \<noteq> [] \<and>
   snd (smart_split_sender_recipient label_with_heading) \<noteq> []"
  using heading_label_markers
    split_at_markers [of label_with_heading] heading_label_split
  by simp

text \<open>
  C2, as stated: the two halves, concatenated, reconstruct the content of the text. The
  label \<open>ID9 from A to B\<close> contains the markers \<open>from\<close> and \<open>to\<close>; the halves are
  \<open>from A\<close> and \<open>to B\<close>, and the heading \<open>ID9\<close> before the first marker is in
  neither: the character \<open>9\<close> of the text occurs in no half.
\<close>

theorem split_drops_heading_counterexample:
  "contains_word sender_words label_with_heading \<and>
   contains_word recipient_words label_with_heading \<and>
   smart_split_sender_recipient label_with_heading =
     ([0x66, 0x72, 0x6F, 0x6D, 0x20, 0x41], [0x74, 0x6F, 0x20, 0x42]) \<and>
   0x39 \<in> set label_with_heading \<and>
   0x39 \<notin> set (fst (smart_split_sender_recipient label_with_heading)) \<union>
          set (snd (smart_split_sender_recipient label_with_heading))"
  using heading_label_markers
  by (simp add: heading_label_split) (simp add: label_with_heading_def)

section \<open>The extraction functions do not raise\<close>

lemma person_info_eq:
  "person_info text is_recipient =
     \<lparr>p_name = extract_name text name_patterns, p_phone = extract_phone text phone_patterns,
      p_address = extract_address text address_patterns,
      p_province = (if is_recipient
                    then recipient_province text (extract_address text address_patterns)
                    else sender_province (extract_address text address_patterns))\<rparr>"
  by (simp add: person_info_def extract_person_info_def extract_person_info_try_def
      no_faults_def empty_person_def)







lemmas person_eval = extract_person_info_def extract_person_info_try_def no_faults_def
  except_Exception_def is_Exception_def
  empty_person_def name_patterns_def name_label_def phone_patterns_def address_patterns_def
  address_label_def province_name_pattern_def recipient_province_def sender_province_def
  or_empty_def colon_or_space_def not_newline_def space_or_hyphen_def province_name_char_def
  thai_name_def thai_address_def thai_tel_def phone_words_def phone_char_def ascii_digit_def
  times.simps any_of.simps sub_empty_def remove_spans.simps ascii_def
  extract_name.simps extract_phone.simps extract_address.simps lit.simps scan.simps
  strip_def is_space_def space_ranges_def ic_def mstart_def Let_def



text \<open>
  What is not an \<open>Exception\<close> passes the handlers: an interrupt at the first step leaves
  \<open>_extract_person_info\<close>.
\<close>

lemma interrupt_leaves_extraction:
  "faults AtName = Some KeyboardInterrupt \<Longrightarrow>
   extract_person_info faults text is_recipient = Inl KeyboardInterrupt"
  by (simp add: extract_person_info_def extract_person_info_try_def except_Exception_def
      is_Exception_def)

section \<open>Properties of the repair and the normalisation\<close>

text \<open>
  C9. The repair of a malformed record leaves a record alone whose \<open>sender\<close> and
  \<open>recipient\<close> are dictionaries already: \<open>normalize_ocr_json_result\<close> returns it
  with every field unchanged, so repairing twice is repairing once.
\<close>

theorem repair_leaves_object_shaped_record:
  assumes "map_of data (ascii ''sender'') = Some (JDict sender)"
    and "map_of data (ascii ''recipient'') = Some (JDict recipient)"
  shows "normalize_ocr_json_result data = data \<and>
         normalize_ocr_json_result (normalize_ocr_json_result data) = normalize_ocr_json_result data"
proof -
  have "normalize_ocr_json_result data = data"
    using assms by (simp add: normalize_ocr_json_result_def dict_get_def Let_def)
  then show ?thesis by simp
qed

theorem repair_leaves_object_shaped_record_witness:
  "map_of repaired_record (ascii ''sender'') = Some (JDict [(ascii ''name'', JStr (ascii ''A''))]) \<and>
   normalize_ocr_json_result repaired_record = repaired_record"
proof -
  have s: "map_of repaired_record (ascii ''sender'') = Some (JDict [(ascii ''name'', JStr (ascii ''A''))])"
    by (simp add: repaired_record_def ascii_def)
  have r: "map_of repaired_record (ascii ''recipient'') =
      Some (JDict [(ascii ''name'', JStr (ascii ''B'')), (ascii ''province'', JStr chiang_mai)])"
    by (simp add: repaired_record_def ascii_def)
  show ?thesis
    using repair_leaves_object_shaped_record [OF s r] s by simp
qed


section \<open>The destination province and the sender\<close>

text \<open>Writing a key of a dictionary changes what is read under that key only.\<close>

lemma map_of_dict_set:
  "map_of (dict_set d k v) k' = (if k' = k then Some v else map_of d k')"
proof (cases "map_of d k = None")
  case True
  then show ?thesis by (auto simp: dict_set_def map_add_def split: option.splits)
next
  case False
  have "map_of (map (\<lambda>(k', v'). if k' = k then (k', v) else (k', v')) d) k' =
        (if k' = k then (if map_of d k = None then None else Some v) else map_of d k')"
    by (induction d) auto
  then show ?thesis using False by (auto simp: dict_set_def)
qed

lemma dict_set_not_Nil: "dict_set d k v \<noteq> []"
  by (cases d) (auto simp: dict_set_def)

lemma dict_get_dict_set:
  "dict_get (dict_set d k v) k' dflt = (if k' = k then v else dict_get d k' dflt)"
  by (simp add: dict_get_def map_of_dict_set)

lemma sender_not_recipient_key: "ascii ''recipient'' \<noteq> ascii ''sender''"
  by (simp add: ascii_def)

lemma normalize_sender_province_keeps:
  assumes "normalize_sender_province a = Inr a1" and "k \<noteq> ascii ''sender''"
  shows "map_of a1 k = map_of a k"
  using assms
  by (auto simp: normalize_sender_province_def Let_def map_of_dict_set
      split: json.splits if_splits sum.splits option.splits)

lemma normalize_province_data_recipient:
  assumes "normalize_province_data a = Inr a'"
  shows "dict_get a' (ascii ''recipient'') (JDict []) =
     (case dict_get a (ascii ''recipient'') (JDict []) of
        JDict recipient \<Rightarrow>
          (case normalize_recipient_province recipient of
             Inr recipient1 \<Rightarrow> JDict recipient1 | Inl e \<Rightarrow> JDict recipient)
      | v \<Rightarrow> v)"
proof (cases "a = []")
  case True
  then have "a' = []" using assms by (simp add: normalize_province_data_def)
  then show ?thesis
    using True
    by (simp add: dict_get_def normalize_recipient_province_def province_from_address_def)
next
  case False
  then obtain a1 where a1: "normalize_sender_province a = Inr a1"
    using assms by (auto simp: normalize_province_data_def split: sum.splits)
  have m: "map_of a1 (ascii ''recipient'') = map_of a (ascii ''recipient'')"
    using a1 sender_not_recipient_key by (rule normalize_sender_province_keeps)
  show ?thesis
  proof (cases "map_of a (ascii ''recipient'')")
    case None
    then show ?thesis
      using assms False a1 m
      by (auto simp: normalize_province_data_def dict_get_def normalize_recipient_province_def
          province_from_address_def)
  next
    case (Some v)
    then show ?thesis
      using assms False a1 m
      by (auto simp: normalize_province_data_def dict_get_def map_of_dict_set
          split: json.splits sum.splits)
  qed
qed

lemma destination_province_recipient:
  "dict_get a (ascii ''recipient'') (JDict []) = dict_get b (ascii ''recipient'') (JDict []) \<Longrightarrow>
   destination_province a = destination_province b"
  by (simp add: destination_province_def)

lemma normalize_ocr_json_result_recipient:
  assumes "\<not> sender_is_split a"
  shows "map_of (normalize_ocr_json_result a) (ascii ''recipient'') =
     (case map_of a (ascii ''recipient'') of
        Some (JStr s) \<Rightarrow> Some (person_dict (person_info s True))
      | v \<Rightarrow> v)"
  using assms
  by (auto simp: normalize_ocr_json_result_def sender_is_split_def Let_def dict_get_def
        map_of_dict_set
      split: option.splits json.splits)

lemma split_sender_repaired:
  "sender_is_split data \<Longrightarrow>
   normalize_ocr_json_result data =
     split_into_persons data (str_of (dict_get data (ascii ''sender'') (JDict [])))"
  by (auto simp: normalize_ocr_json_result_def sender_is_split_def Let_def)

text \<open>
  C3, amended: two parsed records that differ only under \<open>sender\<close>, neither with a
  sender string that the repair splits, get the same destination province and the same
  region, the region of that province, whenever both are resolved (neither run raises).
  The repair, the normalisation and step 5 then read the recipient only.
\<close>

theorem destination_from_recipient_only:
  assumes "\<forall>k. k \<noteq> ascii ''sender'' \<longrightarrow> map_of data1 k = map_of data2 k"
    and "\<not> sender_is_split data1" and "\<not> sender_is_split data2"
    and "resolve_destination data1 = Inr (province1, region1)"
    and "resolve_destination data2 = Inr (province2, region2)"
  shows "province1 = province2 \<and> region1 = region2 \<and> region1 = region_of province1"
proof -
  have r: "map_of data1 (ascii ''recipient'') = map_of data2 (ascii ''recipient'')"
    using assms(1) sender_not_recipient_key by simp
  define n1 where "n1 = normalize_ocr_json_result data1"
  define n2 where "n2 = normalize_ocr_json_result data2"
  have "map_of n1 (ascii ''recipient'') = map_of n2 (ascii ''recipient'')"
    unfolding n1_def n2_def
    using normalize_ocr_json_result_recipient[OF assms(2)]
      normalize_ocr_json_result_recipient[OF assms(3)] r by simp
  then have n: "dict_get n1 (ascii ''recipient'') (JDict []) = dict_get n2 (ascii ''recipient'') (JDict [])"
    by (simp add: dict_get_def)
  obtain d1 where d1: "normalize_province_data n1 = Inr d1"
    and p1: "destination_province d1 = Inr province1" and g1: "region1 = region_of province1"
    using assms(4) unfolding n1_def
    by (auto simp: resolve_destination_def split: sum.splits)
  obtain d2 where d2: "normalize_province_data n2 = Inr d2"
    and p2: "destination_province d2 = Inr province2" and g2: "region2 = region_of province2"
    using assms(5) unfolding n2_def
    by (auto simp: resolve_destination_def split: sum.splits)
  have "dict_get d1 (ascii ''recipient'') (JDict []) = dict_get d2 (ascii ''recipient'') (JDict [])"
    using normalize_province_data_recipient[OF d1] normalize_province_data_recipient[OF d2] n
    by simp
  then have "destination_province d1 = destination_province d2"
    by (rule destination_province_recipient)
  then show ?thesis using p1 p2 g1 g2 by simp
qed

lemma provinces_resolve:
  "extract_province_from_text chiang_mai = Some chiang_mai \<and>
   extract_province_from_text chon_buri = Some chon_buri"
proof -
  have "chiang_mai \<in> set all_provinces" by (simp add: chiang_mai_def all_provinces_def)
  moreover have "chon_buri \<in> set all_provinces" by (simp add: chon_buri_def all_provinces_def)
  ultimately show ?thesis by (simp add: exact_name)
qed

lemma province_values:
  "chiang_mai \<noteq> [] \<and> chon_buri \<noteq> [] \<and> chiang_mai \<noteq> unresolved \<and> chon_buri \<noteq> unresolved \<and>
   get_region chiang_mai = north \<and> get_region chon_buri = east"
  by (simp add: chiang_mai_def chon_buri_def unresolved_def get_region_def region_mapping_def
      north_def east_def)

lemma repaired_record_destination:
  "resolve_destination repaired_record = Inr (JStr chiang_mai, north)"
  using provinces_resolve province_values
  by (simp add: resolve_destination_def repaired_record_def normalize_ocr_json_result_def
      normalize_province_data_def normalize_sender_province_def normalize_recipient_province_def
      extract_province_from_value_def destination_province_def region_of_def
      dict_get_def dict_set_def ascii_def Let_def)

lemma other_sender_destination:
  "resolve_destination (dict_set repaired_record (ascii ''sender'') other_sender) =
     Inr (JStr chiang_mai, north)"
  using provinces_resolve province_values
  by (simp add: resolve_destination_def repaired_record_def other_sender_def
      normalize_ocr_json_result_def
      normalize_province_data_def normalize_sender_province_def normalize_recipient_province_def
      extract_province_from_value_def destination_province_def region_of_def
      dict_get_def dict_set_def ascii_def Let_def)

theorem destination_from_recipient_only_witness:
  "resolve_destination repaired_record = Inr (JStr chiang_mai, north) \<and>
   resolve_destination (dict_set repaired_record (ascii ''sender'') other_sender) =
     Inr (JStr chiang_mai, north) \<and>
   north = region_of (JStr chiang_mai)"
proof -
  have a: "\<forall>k. k \<noteq> ascii ''sender'' \<longrightarrow>
      map_of repaired_record k = map_of (dict_set repaired_record (ascii ''sender'') other_sender) k"
    by (simp add: map_of_dict_set)
  have b: "\<not> sender_is_split repaired_record"
    by (simp add: sender_is_split_def repaired_record_def dict_get_def ascii_def)
  have c: "\<not> sender_is_split (dict_set repaired_record (ascii ''sender'') other_sender)"
    by (simp add: sender_is_split_def dict_get_dict_set other_sender_def)
  show ?thesis
    using destination_from_recipient_only [OF a b c repaired_record_destination
        other_sender_destination]
      repaired_record_destination other_sender_destination
    by simp
qed

text \<open>
  A record whose \<open>sender\<close> string is split by the repair: the recipient is replaced
  by what is extracted from the second half of that string, and the destination is the
  province of the address found there.
\<close>

lemma person_dict_sender_normalizes:
  assumes "dict_get a (ascii ''sender'') (JDict []) = person_dict p"
  shows "\<exists>a1. normalize_sender_province a = Inr a1"
  using assms
  by (auto simp: normalize_sender_province_def person_dict_def extract_province_from_value_def
      dict_get_def ascii_def Let_def split: option.splits)

lemma split_destination:
  assumes "normalize_ocr_json_result data = split_into_persons data s"
    and "snd (smart_split_sender_recipient s) = rt"
    and "extract_address rt address_patterns = q"
    and "extract_province_from_text q = Some q"
    and "q \<noteq> []" and "q \<noteq> unresolved"
  shows "resolve_destination data = Inr (JStr q, get_region q)"
proof -
  define st where "st = fst (smart_split_sender_recipient s)"
  define n where "n = split_into_persons data s"
  have pr: "p_province (person_info rt True) = q"
    using assms(3-5) by (simp add: person_info_eq recipient_province_def or_empty_def Let_def)
  have sp: "smart_split_sender_recipient s = (st, rt)"
    using assms(2) by (auto simp: st_def)
  have ns: "dict_get n (ascii ''sender'') (JDict []) = person_dict (person_info st False)"
    using sender_not_recipient_key
    by (simp add: n_def split_into_persons_def sp dict_get_dict_set)
  have nr: "dict_get n (ascii ''recipient'') (JDict []) = person_dict (person_info rt True)"
    by (simp add: n_def split_into_persons_def sp dict_get_dict_set)
  have mr: "map_of n (ascii ''recipient'') \<noteq> None"
    by (simp add: n_def split_into_persons_def sp map_of_dict_set)
  have ne: "n \<noteq> []"
    by (simp add: n_def split_into_persons_def sp dict_set_not_Nil)
  obtain a1 where a1: "normalize_sender_province n = Inr a1"
    using person_dict_sender_normalizes[OF ns] by blast
  have m: "map_of a1 (ascii ''recipient'') = map_of n (ascii ''recipient'')"
    using a1 sender_not_recipient_key by (rule normalize_sender_province_keeps)
  then have g: "dict_get a1 (ascii ''recipient'') (JDict []) = person_dict (person_info rt True)"
    using nr by (simp add: dict_get_def)
  have nrp: "\<exists>r1. normalize_recipient_province
        [(ascii ''name'', JStr (p_name (person_info rt True))),
         (ascii ''phone'', JStr (p_phone (person_info rt True))),
         (ascii ''address'', JStr (p_address (person_info rt True))),
         (ascii ''province'', JStr (p_province (person_info rt True)))] = Inr r1 \<and>
       dict_get r1 (ascii ''province'') (JStr []) = JStr q"
    using assms(4,5) pr
    by (simp add: normalize_recipient_province_def extract_province_from_value_def
        dict_get_def map_of_dict_set ascii_def Let_def)
  then obtain r1 where r1: "normalize_recipient_province
        [(ascii ''name'', JStr (p_name (person_info rt True))),
         (ascii ''phone'', JStr (p_phone (person_info rt True))),
         (ascii ''address'', JStr (p_address (person_info rt True))),
         (ascii ''province'', JStr (p_province (person_info rt True)))] = Inr r1"
    and r1p: "dict_get r1 (ascii ''province'') (JStr []) = JStr q"
    by blast
  obtain d where d: "normalize_province_data n = Inr d"
    using ne a1 g r1 by (simp add: normalize_province_data_def person_dict_def)
  have "dict_get d (ascii ''recipient'') (JDict []) = JDict r1"
    using normalize_province_data_recipient[OF d] nr r1 by (simp add: person_dict_def)
  then have "destination_province d = Inr (JStr q)"
    using r1p assms(5,6) by (simp add: destination_province_def)
  then show ?thesis
    using d assms(1) by (simp add: resolve_destination_def n_def region_of_def)
qed

lemma merged_label_split:
  "snd (smart_split_sender_recipient merged_label) = to_chon_buri"
  by (simp add: merged_label_def to_chon_buri_def split_eval re_eval)

lemma to_chon_buri_address: "extract_address to_chon_buri address_patterns = chon_buri"
  by (simp add: to_chon_buri_def chon_buri_def person_eval re_eval cho_dot_def changwat_def
      group_def slice_def)

lemma merged_label_long: "100 < length merged_label"
  by (simp add: merged_label_def)

text \<open>
  C3, as stated: the province is the same for any two records that differ only in the
  contents of \<open>sender\<close>. \<open>repaired_record\<close> has a recipient in Chiang Mai and
  resolves to Chiang Mai, in the north. With the long label under \<open>sender\<close> instead,
  and the same recipient, the repair splits the label and overwrites the recipient: the
  destination is Chon Buri, in the east.
\<close>

theorem sender_text_decides_destination_counterexample:
  "resolve_destination repaired_record = Inr (JStr chiang_mai, north) \<and>
   resolve_destination (dict_set repaired_record (ascii ''sender'') (JStr merged_label)) =
     Inr (JStr chon_buri, east) \<and>
   JStr chiang_mai \<noteq> JStr chon_buri \<and> north \<noteq> east"
proof -
  have "sender_is_split (dict_set repaired_record (ascii ''sender'') (JStr merged_label))"
    using merged_label_long by (simp add: sender_is_split_def dict_get_dict_set)
  then have n: "normalize_ocr_json_result (dict_set repaired_record (ascii ''sender'') (JStr merged_label)) =
      split_into_persons (dict_set repaired_record (ascii ''sender'') (JStr merged_label)) merged_label"
    using split_sender_repaired by (fastforce simp: dict_get_dict_set)
  have "resolve_destination (dict_set repaired_record (ascii ''sender'') (JStr merged_label)) =
      Inr (JStr chon_buri, get_region chon_buri)"
    using n merged_label_split to_chon_buri_address provinces_resolve province_values
    by (intro split_destination) simp_all
  moreover have "chiang_mai \<noteq> chon_buri \<and> north \<noteq> east"
    by (simp add: chiang_mai_def chon_buri_def north_def east_def)
  ultimately show ?thesis
    using repaired_record_destination province_values by simp
qed

section \<open>Properties of the arm controller\<close>

lemmas arm_defs = pick_and_place_def pick_and_place_try_def move_to_pickup_def move_to_drop_def
  finish_drop_def suction_on_def suction_off_def move_to_def move_home_def arm_call_def
  and_then_def returns_def emergency_recovery_def is_Exception_def Let_def

lemmas arm_consts = connected_controller_def live_controller_def initial_DROP_POINTS_def
  reserve_point_key_def PICKUP_def SAFETY_Z_def chiang_mai_def chon_buri_def
  nothing_raises_def suction_on_fails_def suction_on_escapes_def
  suction_on_and_off_escape_def interrupted_def dict_get_def dict_set_def

text \<open>
  C1. The claim: a province without a drop point falls back to the reserve point and the
  pick-and-place returns \<open>True\<close>. The code looks the reserve key up in the same table,
  which has no entry under that key: for Chon Buri (the province the source's own test
  uses for the reserve point), with the arm connected and no call raising, the parcel is
  picked up and lifted, \<open>move_to_drop\<close> finds no point, and \<open>pick_and_place\<close> counts a
  failed drop and returns \<open>False\<close>; suction is still on and the arm is not sent Home.
\<close>

theorem pick_and_place_reserve_point_missing:
  "map_of (DROP_POINTS connected_controller) chon_buri = None \<and>
   map_of (DROP_POINTS connected_controller) reserve_point_key = None \<and>
   fst (pick_and_place nothing_raises chon_buri connected_controller) = Inr False \<and>
   failed_drops (snd (pick_and_place nothing_raises chon_buri connected_controller)) = 1 \<and>
   successful_drops (snd (pick_and_place nothing_raises chon_buri connected_controller)) = 0 \<and>
   issued (snd (pick_and_place nothing_raises chon_buri connected_controller)) =
     [MoveTo (-8.51) 215.85 50.0 92.26, MoveTo (-8.51) 215.85 (-8.19) 92.26, Suck True,
      MoveTo (-8.51) 215.85 50.0 92.26]"
  by (simp add: arm_defs arm_consts del: not_None_eq)






text \<open>
  The second way in which the claim as stated fails: when the forced \<open>suction_off\<close>
  itself raises, \<open>move_home\<close> is skipped, both being in one inner \<open>try\<close>. And a
  \<open>KeyboardInterrupt\<close> passes through \<open>except Exception\<close>: the call raises.
\<close>

lemma recovery_skips_home:
  "fst (pick_and_place suction_on_and_off_escape chiang_mai connected_controller) = Inr False \<and>
   issued (snd (pick_and_place suction_on_and_off_escape chiang_mai connected_controller)) =
     [MoveTo (-8.51) 215.85 50.0 92.26, MoveTo (-8.51) 215.85 (-8.19) 92.26, Suck True,
      Suck False]"
  by (simp add: arm_defs arm_consts del: not_None_eq)

lemma interrupt_propagates:
  "fst (pick_and_place interrupted chiang_mai connected_controller) = Inl KeyboardInterrupt \<and>
   failed_drops (snd (pick_and_place interrupted chiang_mai connected_controller)) = 0 \<and>
   issued (snd (pick_and_place interrupted chiang_mai connected_controller)) =
     [MoveTo (-8.51) 215.85 50.0 92.26, MoveTo (-8.51) 215.85 (-8.19) 92.26, Suck True]"
  by (simp add: arm_defs arm_consts del: not_None_eq)



section \<open>Properties of the OCR worker\<close>

text \<open>
  C8. In every iteration of the OCR worker the Dobot queue is left as it was, or gets
  one item at its end; the latter only if the queue of images was not empty, the result
  for the image taken succeeded and its province is neither empty (or \<open>None\<close>) nor
  the unresolved sentinel, and the item carries that province.
\<close>

theorem ocr_worker_enqueues_resolved_only:
  "dobot_queue (ocr_worker_iteration process s) = dobot_queue s \<or>
   (\<exists>image_path waiting result province.
      ocr_queue s = image_path # waiting \<and> process image_path = Inr result \<and>
      r_success result \<and> r_province result = Some province \<and>
      province \<noteq> [] \<and> province \<noteq> unresolved \<and>
      dobot_queue (ocr_worker_iteration process s) =
        dobot_queue s @ [\<lparr>item_image_path = image_path, item_province = Some province,
                           item_tracking = r_tracking_number result, item_result = result\<rparr>])"
  by (auto simp: ocr_worker_iteration_def Let_def truthy_def
      split: list.splits sum.splits option.splits)

theorem ocr_worker_enqueues_resolved_only_witness:
  "map item_province (dobot_queue (ocr_worker_iteration sample_process sample_pipeline)) =
     [Some chiang_mai] \<and>
   map item_province
     (dobot_queue (ocr_worker_iteration sample_process
        (ocr_worker_iteration sample_process sample_pipeline))) = [Some chiang_mai]"
  using ocr_worker_enqueues_resolved_only [of sample_process sample_pipeline]
  by (simp add: ocr_worker_iteration_def sample_process_def sample_pipeline_def Let_def
      truthy_def chiang_mai_def unresolved_def)

text \<open>Hence the worker keeps the queue free of unresolved provinces, however long it runs.\<close>

lemma ocr_worker_iteration_routed:
  assumes "list_all routed (dobot_queue s)"
  shows "list_all routed (dobot_queue (ocr_worker_iteration process s))"
  using assms
  by (auto simp: ocr_worker_iteration_def Let_def routed_def
      split: list.splits sum.splits)

lemma ocr_worker_routed:
  "list_all routed (dobot_queue s) \<Longrightarrow> list_all routed (dobot_queue (ocr_worker process n s))"
  by (induction n arbitrary: s) (simp_all add: ocr_worker_iteration_routed)

end
